theory Spec2Isabelle
  imports Main "HOL-Library.AList"
begin

section \<open>Values, types and struct fields as seen through reflection\<close>

text \<open>
  The binder of configService walks a caller-supplied Go struct with package
  \<^verbatim>\<open>reflect\<close>. The embedding covers the kinds the code dispatches on: bool, string,
  int (standing for every kind that is handed to the YAML decoder), pointers, slices and
  structs. A struct field carries what \<^verbatim>\<open>reflect.StructField\<close> gives the code: its name,
  its package path (empty exactly for exported fields), the embedded flag and its tag.
\<close>

record StructField =
  Name :: string
  PkgPath :: string
  Anonymous :: bool
  Tag :: "(string \<times> string) list"

datatype ty =
    TBool
  | TString
  | TInt
  | TPtr ty
  | TSlice ty
  | TStruct "(StructField \<times> ty) list"

text \<open>
  A value carries its type, as a \<^verbatim>\<open>reflect.Value\<close> does: a nil pointer and a nil slice
  know their element type, a struct value knows its fields. A nil slice and an empty
  slice are different values (\<^verbatim>\<open>reflect.DeepEqual\<close> tells them apart). Pointers own
  what they point to: two fields never share a referent in this model.
\<close>

datatype val =
    VBool bool
  | VString string
  | VInt int
  | VNil ty
  | VPtr val
  | VNilSlice ty
  | VSlice ty "val list"
  | VStruct "(StructField \<times> val) list"

datatype Kind = Invalid | KBool | KString | KInt | KPtr | KSlice | KStruct

fun TypeOf :: "val \<Rightarrow> ty" where
  "TypeOf (VBool b) = TBool"
| "TypeOf (VString s) = TString"
| "TypeOf (VInt i) = TInt"
| "TypeOf (VNil t) = TPtr t"
| "TypeOf (VPtr v) = TPtr (TypeOf v)"
| "TypeOf (VNilSlice t) = TSlice t"
| "TypeOf (VSlice t xs) = TSlice t"
| "TypeOf (VStruct fvs) = TStruct (map (\<lambda>fv. (fst fv, TypeOf (snd fv))) fvs)"

text \<open>\<^verbatim>\<open>reflect.Zero(t)\<close> and \<^verbatim>\<open>reflect.New(t).Elem()\<close>: the zero value of a type.\<close>

fun Zero :: "ty \<Rightarrow> val" where
  "Zero TBool = VBool False"
| "Zero TString = VString []"
| "Zero TInt = VInt 0"
| "Zero (TPtr t) = VNil t"
| "Zero (TSlice t) = VNilSlice t"
| "Zero (TStruct fts) = VStruct (map (\<lambda>ft. (fst ft, Zero (snd ft))) fts)"

fun KindOf :: "val \<Rightarrow> Kind" where
  "KindOf (VBool b) = KBool"
| "KindOf (VString s) = KString"
| "KindOf (VInt i) = KInt"
| "KindOf (VNil t) = KPtr"
| "KindOf (VPtr v) = KPtr"
| "KindOf (VNilSlice t) = KSlice"
| "KindOf (VSlice t xs) = KSlice"
| "KindOf (VStruct fvs) = KStruct"

text \<open>
  \<^verbatim>\<open>reflect.Indirect(v).Kind()\<close>: one pointer is followed; the referent of a nil pointer
  is the invalid value.
\<close>

fun IndirectKind :: "val \<Rightarrow> Kind" where
  "IndirectKind (VPtr v) = KindOf v"
| "IndirectKind (VNil t) = Invalid"
| "IndirectKind v = KindOf v"

text \<open>
  \<^verbatim>\<open>for field.Kind() == reflect.Ptr { field = field.Elem() }\<close>: the value at the end of a
  chain of pointers, \<open>None\<close> when the chain ends in nil. \<open>setThrough\<close> writes a new
  referent at the end of the same chain (the code mutates it in place through
  \<^verbatim>\<open>field.Addr()\<close>).
\<close>

fun derefAll :: "val \<Rightarrow> val option" where
  "derefAll (VPtr v) = derefAll v"
| "derefAll (VNil t) = None"
| "derefAll v = Some v"

fun setThrough :: "val \<Rightarrow> val \<Rightarrow> val" where
  "setThrough (VPtr v) new = VPtr (setThrough v new)"
| "setThrough v new = new"

definition isBlank :: "val \<Rightarrow> bool" where
  "isBlank v = (v = Zero (TypeOf v))"

section \<open>Strings\<close>

text \<open>
  Go strings are byte strings. \<^verbatim>\<open>strings.ToUpper\<close> and \<^verbatim>\<open>strings.ToLower\<close> belong to the
  standard library and map every letter of Unicode; they are parameters of the model
  (fields of the world below). \<open>asciiToUpper\<close> and \<open>asciiToLower\<close> are what they do on
  strings of ASCII characters, and stand for them in the closed instances.
\<close>

definition upperChar :: "char \<Rightarrow> char" where
  "upperChar c = (if 97 \<le> (of_char c :: nat) \<and> (of_char c :: nat) \<le> 122
                  then char_of ((of_char c :: nat) - 32) else c)"

definition lowerChar :: "char \<Rightarrow> char" where
  "lowerChar c = (if 65 \<le> (of_char c :: nat) \<and> (of_char c :: nat) \<le> 90
                  then char_of ((of_char c :: nat) + 32) else c)"

definition asciiToUpper :: "string \<Rightarrow> string" where
  "asciiToUpper s = map upperChar s"

definition asciiToLower :: "string \<Rightarrow> string" where
  "asciiToLower s = map lowerChar s"

text \<open>\<^verbatim>\<open>strings.Join(elems, sep)\<close>.\<close>

fun Join :: "string list \<Rightarrow> string \<Rightarrow> string" where
  "Join [] sep = []"
| "Join [x] sep = x"
| "Join (x # y # ys) sep = x @ sep @ Join (y # ys) sep"

text \<open>\<^verbatim>\<open>fmt.Sprint(i)\<close> for a slice index: its decimal digits.\<close>

definition digit :: "nat \<Rightarrow> char" where
  "digit d = char_of (48 + d)"

fun Sprint :: "nat \<Rightarrow> string" where
  "Sprint n = (if n < 10 then [digit n] else Sprint (n div 10) @ [digit (n mod 10)])"

declare Sprint.simps [simp del]

text \<open>\<^verbatim>\<open>strings.HasSuffix\<close>, \<^verbatim>\<open>strings.TrimSuffix\<close> and \<^verbatim>\<open>strings.Contains\<close>.\<close>

definition HasSuffix :: "string \<Rightarrow> string \<Rightarrow> bool" where
  "HasSuffix s suf = (length suf \<le> length s \<and> drop (length s - length suf) s = suf)"

definition TrimSuffix :: "string \<Rightarrow> string \<Rightarrow> string" where
  "TrimSuffix s suf = (if HasSuffix s suf then take (length s - length suf) s else s)"

fun Contains :: "string \<Rightarrow> string \<Rightarrow> bool" where
  "Contains [] sub = (sub = [])"
| "Contains (c # cs) sub = (take (length sub) (c # cs) = sub \<or> Contains cs sub)"

section \<open>Errors, outcomes and the collaborators\<close>

text \<open>
  The error values the code builds or tells apart: \<^verbatim>\<open>errors.New\<close> and \<^verbatim>\<open>fmt.Errorf\<close>
  give an \<open>ErrorString\<close>; \<open>UnmatchedTomlKeysError\<close> is the type of that name;
  \<open>YamlTypeError\<close> is \<^verbatim>\<open>*yaml.TypeError\<close>; \<open>EOF\<close> is \<^verbatim>\<open>io.EOF\<close>; \<open>ExternalError\<close> is
  any other error of a collaborator, with its message.
\<close>

datatype error =
    ErrorString string
  | UnmatchedTomlKeysError "string list"
  | YamlTypeError "string list"
  | EOF
  | ExternalError string

text \<open>The method \<^verbatim>\<open>Error()\<close>.\<close>

fun ErrorMsg :: "error \<Rightarrow> string" where
  "ErrorMsg (ErrorString s) = s"
| "ErrorMsg (UnmatchedTomlKeysError ks) =
     ''There are keys in the config file that do not match any field in the given struct: [''
       @ Join ks '' '' @ '']''"
| "ErrorMsg (YamlTypeError es) = ''yaml: unmarshal errors:'' @ [CHR 0x0A] @ ''  ''
       @ Join es ([CHR 0x0A] @ ''  '')"
| "ErrorMsg EOF = ''EOF''"
| "ErrorMsg (ExternalError s) = s"

text \<open>
  What a call that mutates a record leaves behind: it returns no error (\<open>Ok\<close>, with the
  record as it is now), returns an error (\<open>Err\<close>, with the record as far as it was
  mutated), or panics.
\<close>

datatype 'a outcome = Ok 'a | Err error 'a | Panic

fun mapOutcome :: "('a \<Rightarrow> 'b) \<Rightarrow> 'a outcome option \<Rightarrow> 'b outcome option" where
  "mapOutcome g None = None"
| "mapOutcome g (Some Panic) = Some Panic"
| "mapOutcome g (Some (Err e a)) = Some (Err e (g a))"
| "mapOutcome g (Some (Ok a)) = Some (Ok (g a))"

text \<open>
  The collaborators are parameters of the model: the process environment, the file
  system (\<^verbatim>\<open>os.Stat\<close> reduced to what the code reads: whether the path is a regular file
  and its modification time; \<^verbatim>\<open>ioutil.ReadFile\<close>), \<^verbatim>\<open>os.Args[0]\<close>, \<^verbatim>\<open>strings.ToUpper\<close> and
  \<^verbatim>\<open>strings.ToLower\<close>, and the three decoders.
  A decoder takes the bytes and the record it decodes into and gives the record after
  the call and the error it returned.
\<close>

record FileInfo =
  IsRegular :: bool
  ModTime :: nat

record World =
  environ :: "string \<rightharpoonup> string"
  Stat :: "string \<Rightarrow> FileInfo option"
  ReadFile :: "string \<Rightarrow> error + string"
  Args0 :: string
  ToUpper :: "string \<Rightarrow> string"
  ToLower :: "string \<Rightarrow> string"
  yaml_Unmarshal :: "string \<Rightarrow> val \<Rightarrow> val \<times> error option"
  yaml_UnmarshalStrict :: "string \<Rightarrow> val \<Rightarrow> val \<times> error option"
  toml_Decode :: "string \<Rightarrow> val \<Rightarrow> (val \<times> string list) \<times> error option"
  json_Decode :: "bool \<Rightarrow> string \<Rightarrow> val \<Rightarrow> val \<times> error option"

text \<open>\<^verbatim>\<open>os.Getenv\<close>: the value of the variable, empty when it is not set.\<close>

definition Getenv :: "World \<Rightarrow> string \<Rightarrow> string" where
  "Getenv w k = (case environ w k of None \<Rightarrow> [] | Some v \<Rightarrow> v)"

section \<open>The field binder\<close>

definition Tag_Get :: "StructField \<Rightarrow> string \<Rightarrow> string" where
  "Tag_Get f k = (case map_of (Tag f) k of None \<Rightarrow> [] | Some v \<Rightarrow> v)"

text \<open>
  \<^verbatim>\<open>field.CanAddr() && field.CanInterface()\<close>: the record is reached through a pointer, so
  every field is addressable; a field can be read through \<^verbatim>\<open>Interface()\<close> exactly when it
  is exported.
\<close>

definition canAccess :: "StructField \<Rightarrow> bool" where
  "canAccess f = (PkgPath f = [])"

definition getPrefixForStruct :: "string list \<Rightarrow> StructField \<Rightarrow> string list" where
  "getPrefixForStruct prefixes fieldStruct =
     (if Anonymous fieldStruct \<and> Tag_Get fieldStruct ''anonymous'' = ''true''
      then prefixes else prefixes @ [Name fieldStruct])"

definition envNames :: "World \<Rightarrow> string list \<Rightarrow> StructField \<Rightarrow> string list" where
  "envNames w prefixes fieldStruct =
     (let envName = Tag_Get fieldStruct ''env'' in
      if envName = []
      then [Join (prefixes @ [Name fieldStruct]) ''_'',
            ToUpper w (Join (prefixes @ [Name fieldStruct]) ''_'')]
      else [envName])"

text \<open>The \<^verbatim>\<open>switch strings.ToLower(value)\<close> of a bool field.\<close>

definition boolOfEnv :: "World \<Rightarrow> string \<Rightarrow> bool" where
  "boolOfEnv w value =
     (let l = ToLower w value in
      if l = [] \<or> l = ''0'' \<or> l = ''f'' \<or> l = ''false'' then False else True)"

text \<open>
  The conversion of a matched, non-empty environment value, by the kind behind at most
  one pointer. \<^verbatim>\<open>field.Set(reflect.ValueOf(b))\<close> panics unless the field itself is a bool
  (a non-nil \<^verbatim>\<open>*bool\<close> has the kind Bool behind its pointer and is not assignable from a
  bool); the same for strings. Every other kind goes to the YAML decoder.
\<close>

definition setFromEnv :: "World \<Rightarrow> string \<Rightarrow> val \<Rightarrow> val outcome" where
  "setFromEnv w value field =
     (case IndirectKind field of
        KBool \<Rightarrow> (case field of VBool b \<Rightarrow> Ok (VBool (boolOfEnv w value)) | _ \<Rightarrow> Panic)
      | KString \<Rightarrow> (case field of VString s \<Rightarrow> Ok (VString value) | _ \<Rightarrow> Panic)
      | _ \<Rightarrow> (case yaml_Unmarshal w value field of
                 (field', None) \<Rightarrow> Ok field'
               | (field', Some err) \<Rightarrow> Err err field'))"

text \<open>
  \<^verbatim>\<open>for _, env := range envNames\<close>: the first name whose value is not empty is converted
  and ends the loop.
\<close>

fun loadFromEnv :: "World \<Rightarrow> string list \<Rightarrow> val \<Rightarrow> val outcome" where
  "loadFromEnv w [] field = Ok field"
| "loadFromEnv w (env # envs) field =
     (if Getenv w env \<noteq> [] then setFromEnv w (Getenv w env) field
      else loadFromEnv w envs field)"

text \<open>
  The blank check after the environment. \<open>enforce\<close> is the one difference between
  \<^verbatim>\<open>processTags\<close> (True) and \<^verbatim>\<open>processInitTags\<close> (False), whose bodies are otherwise
  the same text: only \<^verbatim>\<open>processTags\<close> has the \<^verbatim>\<open>else if\<close> on the required tag.
\<close>

definition requiredError :: "StructField \<Rightarrow> error" where
  "requiredError fieldStruct = ErrorString (Name fieldStruct @ '' is required, but blank'')"

definition applyDefault :: "bool \<Rightarrow> World \<Rightarrow> StructField \<Rightarrow> val \<Rightarrow> val outcome" where
  "applyDefault enforce w fieldStruct field =
     (if isBlank field then
        (if Tag_Get fieldStruct ''default'' \<noteq> [] then
           (case yaml_Unmarshal w (Tag_Get fieldStruct ''default'') field of
              (field', None) \<Rightarrow> Ok field'
            | (field', Some err) \<Rightarrow> Err err field')
         else if enforce \<and> Tag_Get fieldStruct ''required'' = ''true'' then
           Err (requiredError fieldStruct) field
         else Ok field)
      else Ok field)"

text \<open>\<^verbatim>\<open>reflect.Append(field, newVal)\<close> on a slice field.\<close>

fun Append :: "val \<Rightarrow> val \<Rightarrow> val" where
  "Append (VNilSlice t) x = VSlice t [x]"
| "Append (VSlice t xs) x = VSlice t (xs @ [x])"
| "Append v x = v"

definition invalidConfig :: error where
  "invalidConfig = ErrorString ''invalid config, should be struct''"

text \<open>
  What the binder does with a field after its own value is settled, read off the value
  at the end of its pointers: nothing, the recursion into a struct, the loop over the
  elements of a non-empty slice, or the loop that grows an empty slice whose element
  type is a struct (\<^verbatim>\<open>reflect.New(field.Type().Elem()).Elem().Kind() == reflect.Struct\<close>).
\<close>

datatype descent = NoDescent | IntoStruct val | IntoElems ty "val list" | Grow ty val

definition descentOf :: "val \<Rightarrow> descent" where
  "descentOf field =
     (case derefAll field of
        Some (VStruct fvs) \<Rightarrow> IntoStruct (VStruct fvs)
      | Some (VSlice t xs) \<Rightarrow>
          (if xs \<noteq> [] then IntoElems t xs
           else if KindOf (Zero t) = KStruct then Grow t (VSlice t []) else NoDescent)
      | Some (VNilSlice t) \<Rightarrow>
          (if KindOf (Zero t) = KStruct then Grow t (VNilSlice t) else NoDescent)
      | _ \<Rightarrow> NoDescent)"

text \<open>
  The first half of a round of the field loop: the environment, then the blank check.
\<close>

definition resolveField :: "bool \<Rightarrow> World \<Rightarrow> StructField \<Rightarrow> val \<Rightarrow> string list \<Rightarrow> val outcome" where
  "resolveField enforce w fieldStruct field prefixes =
     (case loadFromEnv w (envNames w prefixes fieldStruct) field of
        Ok field1 \<Rightarrow> applyDefault enforce w fieldStruct field1
      | r \<Rightarrow> r)"

fun structFields :: "val \<Rightarrow> (StructField \<times> val) list option" where
  "structFields (VStruct fvs) = Some fvs"
| "structFields v = None"

text \<open>
  The recursion of the binder. The \<^verbatim>\<open>for { ... }\<close> loop that grows an empty slice has no
  bound, so the functions take fuel: every call of the binder and every round of that
  loop uses one unit, and \<open>None\<close> is the answer of a run that needs more than it was
  given. \<open>bindTags\<close> is the body of \<^verbatim>\<open>processTags\<close>/\<^verbatim>\<open>processInitTags\<close> on the value behind
  the \<^verbatim>\<open>config\<close> pointer, \<open>bindFields\<close> its loop over the fields, \<open>bindField\<close> one round
  of that loop, \<open>bindElems\<close> the loop over the elements of a non-empty slice, and
  \<open>growSlice\<close> the loop that grows an empty one. The lines the code prints under
  \<^verbatim>\<open>Debug\<close> and \<^verbatim>\<open>Verbose\<close> are not modelled.
\<close>

function bindTags :: "bool \<Rightarrow> nat \<Rightarrow> World \<Rightarrow> val \<Rightarrow> string list \<Rightarrow> val outcome option"
and bindFields :: "bool \<Rightarrow> nat \<Rightarrow> World \<Rightarrow> (StructField \<times> val) list \<Rightarrow> string list
                     \<Rightarrow> (StructField \<times> val) list outcome option"
and bindField :: "bool \<Rightarrow> nat \<Rightarrow> World \<Rightarrow> StructField \<Rightarrow> val \<Rightarrow> string list
                     \<Rightarrow> val outcome option"
and bindElems :: "bool \<Rightarrow> nat \<Rightarrow> World \<Rightarrow> val list \<Rightarrow> nat \<Rightarrow> string list
                     \<Rightarrow> val list outcome option"
and growSlice :: "bool \<Rightarrow> nat \<Rightarrow> World \<Rightarrow> ty \<Rightarrow> string list \<Rightarrow> nat \<Rightarrow> val
                     \<Rightarrow> val outcome option"
where
  "bindTags enforce 0 w config prefixes = None"
| "bindTags enforce (Suc n) w config prefixes =
     (case structFields config of
        None \<Rightarrow> Some (Err invalidConfig config)
      | Some fvs \<Rightarrow> mapOutcome VStruct (bindFields enforce n w fvs prefixes))"
| "bindFields enforce n w [] prefixes = Some (Ok [])"
| "bindFields enforce n w (fv # rest) prefixes =
     (case bindField enforce n w (fst fv) (snd fv) prefixes of
        None \<Rightarrow> None
      | Some Panic \<Rightarrow> Some Panic
      | Some (Err err field') \<Rightarrow> Some (Err err ((fst fv, field') # rest))
      | Some (Ok field') \<Rightarrow>
          mapOutcome (\<lambda>rest'. (fst fv, field') # rest')
            (bindFields enforce n w rest prefixes))"
| "bindField enforce n w fieldStruct field prefixes =
     (if \<not> canAccess fieldStruct then Some (Ok field)
      else
        (case resolveField enforce w fieldStruct field prefixes of
           Panic \<Rightarrow> Some Panic
         | Err err field2 \<Rightarrow> Some (Err err field2)
         | Ok field2 \<Rightarrow>
             (case descentOf field2 of
                NoDescent \<Rightarrow> Some (Ok field2)
              | IntoStruct s \<Rightarrow>
                  mapOutcome (setThrough field2)
                    (bindTags enforce n w s (getPrefixForStruct prefixes fieldStruct))
              | IntoElems t xs \<Rightarrow>
                  mapOutcome (\<lambda>ys. setThrough field2 (VSlice t ys))
                    (bindElems enforce n w xs 0 (getPrefixForStruct prefixes fieldStruct))
              | Grow t cur \<Rightarrow>
                  mapOutcome (setThrough field2)
                    (growSlice enforce n w t (getPrefixForStruct prefixes fieldStruct) 0 cur))))"
| "bindElems enforce n w [] i prefixes = Some (Ok [])"
| "bindElems enforce n w (x # xs) i prefixes =
     (if IndirectKind x = KStruct then
        (case bindTags enforce n w x (prefixes @ [Sprint i]) of
           None \<Rightarrow> None
         | Some Panic \<Rightarrow> Some Panic
         | Some (Err err x') \<Rightarrow> Some (Err err (x' # xs))
         | Some (Ok x') \<Rightarrow>
             mapOutcome (\<lambda>xs'. x' # xs') (bindElems enforce n w xs (Suc i) prefixes))
      else mapOutcome (\<lambda>xs'. x # xs') (bindElems enforce n w xs (Suc i) prefixes))"
| "growSlice enforce 0 w t prefixes idx field = None"
| "growSlice enforce (Suc n) w t prefixes idx field =
     (case bindTags enforce n w (Zero t) (prefixes @ [Sprint idx]) of
        None \<Rightarrow> None
      | Some Panic \<Rightarrow> Some Panic
      | Some (Err err newVal) \<Rightarrow> Some (Err err field)
      | Some (Ok newVal) \<Rightarrow>
          (if newVal = Zero t then Some (Ok field)
           else growSlice enforce n w t prefixes (Suc idx) (Append field newVal)))"
  by pat_completeness auto
termination
  apply (relation
    "(\<lambda>x. case x of
          Inl (Inl (e, n, r)) \<Rightarrow> n
        | Inl (Inr (e, n, r)) \<Rightarrow> n
        | Inr (Inl (e, n, r)) \<Rightarrow> n
        | Inr (Inr (Inl (e, n, r))) \<Rightarrow> n
        | Inr (Inr (Inr (e, n, r))) \<Rightarrow> n)
     <*mlex*>
     (\<lambda>x. case x of
          Inl (Inl r) \<Rightarrow> 0
        | Inl (Inr r) \<Rightarrow> 3
        | Inr (Inl r) \<Rightarrow> 2
        | Inr (Inr (Inl r)) \<Rightarrow> 1
        | Inr (Inr (Inr r)) \<Rightarrow> (1::nat))
     <*mlex*>
     (\<lambda>x. case x of
          Inl (Inr (e, n, w, fvs, p)) \<Rightarrow> length fvs
        | Inr (Inr (Inl (e, n, w, xs, r))) \<Rightarrow> length xs
        | _ \<Rightarrow> (0::nat))
     <*mlex*> {}")
  apply (auto simp: wf_mlex mlex_prod_def)
  done

declare bindField.simps [simp del]

definition processTags :: "nat \<Rightarrow> World \<Rightarrow> val \<Rightarrow> string list \<Rightarrow> val outcome option" where
  "processTags = bindTags True"

definition processInitTags :: "nat \<Rightarrow> World \<Rightarrow> val \<Rightarrow> string list \<Rightarrow> val outcome option" where
  "processInitTags = bindTags False"

section \<open>The service and its environment name\<close>

text \<open>
  \<^verbatim>\<open>ConfigService\<close> embeds \<^verbatim>\<open>*Config\<close> and adds the modification times recorded by the
  last load that decoded all its files. The map is kept as an association list with one
  entry per key (\<open>AList.update\<close>), so that its length is Go's \<^verbatim>\<open>len\<close>. Of the callback
  only whether it is set is kept; its calls are logged by the reload cycle below.
\<close>

record Config =
  Environment :: string
  ENVPrefix :: string
  Debug :: bool
  Verbose :: bool
  Silent :: bool
  AutoReload :: bool
  AutoReloadInterval :: nat
  AutoReloadCallback :: bool
  ErrorOnUnmatchedKeys :: bool

record ConfigService = Config +
  configModTimes :: "(string \<times> nat) list"

text \<open>The regular expression \<^verbatim>\<open>_test|(\.test$)\<close>.\<close>

definition testRegexp_MatchString :: "string \<Rightarrow> bool" where
  "testRegexp_MatchString s = (Contains s ''_test'' \<or> HasSuffix s ''.test'')"

definition GetEnvironment :: "World \<Rightarrow> ConfigService \<Rightarrow> string" where
  "GetEnvironment w cs =
     (if Environment cs = [] then
        (if Getenv w ''CONFIGOR_ENV'' \<noteq> [] then Getenv w ''CONFIGOR_ENV''
         else if testRegexp_MatchString (Args0 w) then ''test''
         else ''development'')
      else Environment cs)"

definition getENVPrefix :: "World \<Rightarrow> ConfigService \<Rightarrow> string" where
  "getENVPrefix w cs =
     (if ENVPrefix cs = [] then
        (if Getenv w ''CONFIGOR_ENV_PREFIX'' \<noteq> [] then Getenv w ''CONFIGOR_ENV_PREFIX''
         else ''ConfigService'')
      else ENVPrefix cs)"

section \<open>The source resolver\<close>

text \<open>
  \<^verbatim>\<open>path.Ext\<close>: the suffix from the last dot of the last element of the path, empty when
  that element has no dot. \<open>extScan\<close> is its loop, from the end of the path.
\<close>

fun extScan :: "string \<Rightarrow> string \<Rightarrow> string" where
  "extScan [] seen = []"
| "extScan (c # cs) seen =
     (if c = CHR ''/'' then []
      else if c = CHR ''.'' then c # seen
      else extScan cs (c # seen))"

definition Ext :: "string \<Rightarrow> string" where
  "Ext path = extScan (rev path) []"

definition envFileName :: "string \<Rightarrow> string \<Rightarrow> string" where
  "envFileName file env =
     (let extname = Ext file in
      if extname = [] then file @ ''.'' @ env
      else TrimSuffix file extname @ ''.'' @ env @ extname)"

text \<open>\<open>None\<close> stands for the error return; the caller only tests it against nil.\<close>

definition getConfigurationFileWithENVPrefix :: "World \<Rightarrow> string \<Rightarrow> string \<Rightarrow> (string \<times> nat) option" where
  "getConfigurationFileWithENVPrefix w file env =
     (case Stat w (envFileName file env) of
        Some fileInfo \<Rightarrow>
          (if IsRegular fileInfo then Some (envFileName file env, ModTime fileInfo) else None)
      | None \<Rightarrow> None)"

text \<open>
  The state of the loop of \<^verbatim>\<open>getConfigurationFiles\<close>: \<^verbatim>\<open>resultKeys\<close>, \<^verbatim>\<open>results\<close> and the
  lines printed so far. \<open>resolveCandidate\<close> is one round, \<open>resolveLoop\<close> the loop; the
  function hands it the files last to first.
\<close>

type_synonym resolved = "string list \<times> (string \<times> nat) list \<times> string list"

definition resolveCandidate :: "World \<Rightarrow> ConfigService \<Rightarrow> bool \<Rightarrow> string \<Rightarrow> resolved \<Rightarrow> resolved" where
  "resolveCandidate w cs watchMode file st =
     (case st of (resultKeys, results, printed) \<Rightarrow>
      let (foundFile1, resultKeys1, results1) =
            (case Stat w file of
               Some fileInfo \<Rightarrow>
                 (if IsRegular fileInfo
                  then (True, resultKeys @ [file], AList.update file (ModTime fileInfo) results)
                  else (False, resultKeys, results))
             | None \<Rightarrow> (False, resultKeys, results));
          (foundFile2, resultKeys2, results2) =
            (case getConfigurationFileWithENVPrefix w file (GetEnvironment w cs) of
               Some (envFile, modTime) \<Rightarrow>
                 (True, resultKeys1 @ [envFile], AList.update envFile modTime results1)
             | None \<Rightarrow> (foundFile1, resultKeys1, results1))
      in
      if \<not> foundFile2 then
        (case getConfigurationFileWithENVPrefix w file ''example'' of
           Some (example, modTime) \<Rightarrow>
             (resultKeys2 @ [example], AList.update example modTime results2,
              if \<not> watchMode \<and> \<not> Silent cs
              then printed @ [''Failed to find configuration '' @ file
                               @ '', using example file '' @ example @ [CHR 0x0A]]
              else printed)
         | None \<Rightarrow>
             (resultKeys2, results2,
              if \<not> Silent cs
              then printed @ [''Failed to find configuration '' @ file @ [CHR 0x0A]]
              else printed))
      else (resultKeys2, results2, printed))"

fun resolveLoop :: "World \<Rightarrow> ConfigService \<Rightarrow> bool \<Rightarrow> string list \<Rightarrow> resolved \<Rightarrow> resolved" where
  "resolveLoop w cs watchMode [] st = st"
| "resolveLoop w cs watchMode (file # files) st =
     resolveLoop w cs watchMode files (resolveCandidate w cs watchMode file st)"

definition getConfigurationFiles :: "World \<Rightarrow> ConfigService \<Rightarrow> bool \<Rightarrow> string list \<Rightarrow> resolved" where
  "getConfigurationFiles w cs watchMode files =
     resolveLoop w cs watchMode (rev files)
       ([], [],
        if \<not> watchMode \<and> (Debug cs \<or> Verbose cs)
        then [''Current environment: '' @ [CHR 0x27] @ GetEnvironment w cs @ [CHR 0x27, CHR 0x0A]]
        else [])"

section \<open>The decoder dispatch\<close>

definition unmarshalToml :: "World \<Rightarrow> string \<Rightarrow> val \<Rightarrow> bool \<Rightarrow> val \<times> error option" where
  "unmarshalToml w data config errorOnUnmatchedKeys =
     (case toml_Decode w data config of
        ((config', undecoded), err) \<Rightarrow>
          (if err = None \<and> length undecoded > 0 \<and> errorOnUnmatchedKeys
           then (config', Some (UnmatchedTomlKeysError undecoded))
           else (config', err)))"

definition unmarshalJSON :: "World \<Rightarrow> string \<Rightarrow> val \<Rightarrow> bool \<Rightarrow> val \<times> error option" where
  "unmarshalJSON w data config errorOnUnmatchedKeys =
     (case json_Decode w errorOnUnmatchedKeys data config of
        (config', err) \<Rightarrow>
          (if err \<noteq> None \<and> err \<noteq> Some EOF then (config', err) else (config', None)))"

definition unmarshalYaml :: "World \<Rightarrow> string \<Rightarrow> val \<Rightarrow> bool \<Rightarrow> val \<times> error option" where
  "unmarshalYaml w data config errorOnUnmatchedKeys =
     (if errorOnUnmatchedKeys then yaml_UnmarshalStrict w data config
      else yaml_Unmarshal w data config)"

definition toOutcome :: "val \<times> error option \<Rightarrow> val outcome" where
  "toOutcome r = (case r of (config', None) \<Rightarrow> Ok config' | (config', Some err) \<Rightarrow> Err err config')"

text \<open>
  The \<^verbatim>\<open>default\<close> branch of \<^verbatim>\<open>processFile\<close>: TOML, then JSON, then YAML, each on the
  record as the attempt before left it.
\<close>

definition probeFormats :: "World \<Rightarrow> string \<Rightarrow> val \<Rightarrow> bool \<Rightarrow> val outcome" where
  "probeFormats w data config errorOnUnmatchedKeys =
     (case unmarshalToml w data config errorOnUnmatchedKeys of
        (config1, None) \<Rightarrow> Ok config1
      | (config1, Some (UnmatchedTomlKeysError keys)) \<Rightarrow> Err (UnmatchedTomlKeysError keys) config1
      | (config1, Some tomlErr) \<Rightarrow>
          (case unmarshalJSON w data config1 errorOnUnmatchedKeys of
             (config2, None) \<Rightarrow> Ok config2
           | (config2, Some jsonErr) \<Rightarrow>
               (if Contains (ErrorMsg jsonErr) ''json: unknown field'' then Err jsonErr config2
                else
                  (case unmarshalYaml w data config2 errorOnUnmatchedKeys of
                     (config3, None) \<Rightarrow> Ok config3
                   | (config3, Some (YamlTypeError es)) \<Rightarrow> Err (YamlTypeError es) config3
                   | (config3, Some yamlError) \<Rightarrow>
                       Err (ErrorString ''failed to decode config'') config3))))"

definition processFile :: "World \<Rightarrow> val \<Rightarrow> string \<Rightarrow> bool \<Rightarrow> val outcome" where
  "processFile w config file errorOnUnmatchedKeys =
     (case ReadFile w file of
        Inl err \<Rightarrow> Err err config
      | Inr data \<Rightarrow>
          (if HasSuffix file ''.yaml'' \<or> HasSuffix file ''.yml''
           then toOutcome (unmarshalYaml w data config errorOnUnmatchedKeys)
           else if HasSuffix file ''.toml''
           then toOutcome (unmarshalToml w data config errorOnUnmatchedKeys)
           else if HasSuffix file ''.json''
           then toOutcome (unmarshalJSON w data config errorOnUnmatchedKeys)
           else probeFormats w data config errorOnUnmatchedKeys))"

section \<open>Loading\<close>

text \<open>\<^verbatim>\<open>for _, file := range configFiles\<close>: the first error ends the load.\<close>

fun processFiles :: "World \<Rightarrow> val \<Rightarrow> string list \<Rightarrow> bool \<Rightarrow> val outcome" where
  "processFiles w config [] errorOnUnmatchedKeys = Ok config"
| "processFiles w config (file # files) errorOnUnmatchedKeys =
     (case processFile w config file errorOnUnmatchedKeys of
        Ok config' \<Rightarrow> processFiles w config' files errorOnUnmatchedKeys
      | r \<Rightarrow> r)"

text \<open>
  The loop over the new modification times in watch mode: an entry that was not recorded
  or is newer than its recorded time sets \<^verbatim>\<open>changed\<close>.
\<close>

definition modTimesChanged :: "(string \<times> nat) list \<Rightarrow> (string \<times> nat) list \<Rightarrow> bool" where
  "modTimesChanged configModTimeMap recorded =
     list_ex (\<lambda>(f, t). case map_of recorded f of None \<Rightarrow> True | Some v \<Rightarrow> v < t) configModTimeMap"

text \<open>
  \<^verbatim>\<open>load\<close> and \<^verbatim>\<open>init\<close> are the same text up to the binder they call. The result holds
  \<^verbatim>\<open>changed\<close>, the record and the service as the call leaves them. The lines printed
  under \<^verbatim>\<open>Debug\<close> and \<^verbatim>\<open>Verbose\<close> and those of the resolver are dropped here.
\<close>

definition loadWith :: "bool \<Rightarrow> nat \<Rightarrow> World \<Rightarrow> ConfigService \<Rightarrow> val \<Rightarrow> bool \<Rightarrow> string list
    \<Rightarrow> (bool \<times> val \<times> ConfigService) outcome option" where
  "loadWith enforce fuel w cs config watchMode files =
     (case getConfigurationFiles w cs watchMode files of
        (configFiles, configModTimeMap, printed) \<Rightarrow>
          if watchMode \<and> length configModTimeMap = length (configModTimes cs)
             \<and> \<not> modTimesChanged configModTimeMap (configModTimes cs)
          then Some (Ok (False, config, cs))
          else
            (case processFiles w config configFiles (ErrorOnUnmatchedKeys cs) of
               Panic \<Rightarrow> Some Panic
             | Err err config' \<Rightarrow> Some (Err err (True, config', cs))
             | Ok config' \<Rightarrow>
                 mapOutcome (\<lambda>c. (True, c, cs\<lparr>configModTimes := configModTimeMap\<rparr>))
                   (if getENVPrefix w cs = ''-''
                    then bindTags enforce fuel w config' []
                    else bindTags enforce fuel w config' [getENVPrefix w cs])))"

definition load :: "nat \<Rightarrow> World \<Rightarrow> ConfigService \<Rightarrow> val \<Rightarrow> bool \<Rightarrow> string list
    \<Rightarrow> (bool \<times> val \<times> ConfigService) outcome option" where
  "load = loadWith True"

definition init :: "nat \<Rightarrow> World \<Rightarrow> ConfigService \<Rightarrow> val \<Rightarrow> bool \<Rightarrow> string list
    \<Rightarrow> (bool \<times> val \<times> ConfigService) outcome option" where
  "init = loadWith False"

section \<open>Load, Init and the reload cycle\<close>

text \<open>
  \<^verbatim>\<open>Load\<close> keeps \<^verbatim>\<open>defaultValue := reflect.Indirect(reflect.ValueOf(config))\<close>, a
  \<^verbatim>\<open>reflect.Value\<close> that refers to the caller's record and holds no copy of it, and the
  goroutine reads it at every cycle. What the claims of the reload say depends on that
  sharing, so the records live in a heap and \<^verbatim>\<open>config\<close> and \<^verbatim>\<open>defaultValue\<close> are addresses.
  A process holds the heap, the next free address (for \<^verbatim>\<open>reflect.New\<close>), the service, the
  records the callback was called with and the errors the goroutine printed.
\<close>

record Process =
  heap :: "nat \<rightharpoonup> val"
  nextAddr :: nat
  service :: ConfigService
  callbackCalls :: "val list"
  reloadErrors :: "error list"

text \<open>What the closure of the goroutine captured.\<close>

record Watcher =
  w_config :: nat
  w_defaultValue :: nat
  w_files :: "string list"

text \<open>
  \<^verbatim>\<open>Load\<close> up to the start of the goroutine. A nil \<^verbatim>\<open>config\<close> (no record at the address) is
  not addressable; any record behind a pointer is. The result holds the process after the
  call and the goroutine it started, if any.
\<close>

definition Load :: "nat \<Rightarrow> World \<Rightarrow> Process \<Rightarrow> nat \<Rightarrow> string list
    \<Rightarrow> (Process \<times> Watcher option) outcome option" where
  "Load fuel w p config files =
     (case heap p config of
        None \<Rightarrow> Some (Err (ErrorString ''Config <nil> should be addressable'') (p, None))
      | Some cur \<Rightarrow>
          (let defaultValue = config in
           mapOutcome
             (\<lambda>(changed, record', cs').
                (p\<lparr>heap := (heap p)(config \<mapsto> record'), service := cs'\<rparr>,
                 if AutoReload cs'
                 then Some \<lparr>w_config = config, w_defaultValue = defaultValue, w_files = files\<rparr>
                 else None))
             (load fuel w (service p) cur False files)))"

definition Init :: "nat \<Rightarrow> World \<Rightarrow> Process \<Rightarrow> nat \<Rightarrow> string list \<Rightarrow> Process outcome option" where
  "Init fuel w p config files =
     (case heap p config of
        None \<Rightarrow> Some (Err (ErrorString ''Config <nil> should be addressable'') p)
      | Some cur \<Rightarrow>
          mapOutcome
            (\<lambda>(changed, record', cs'). p\<lparr>heap := (heap p)(config \<mapsto> record'), service := cs'\<rparr>)
            (init fuel w (service p) cur False files))"

text \<open>
  One round of \<^verbatim>\<open>for range timer.C\<close>: a new record is allocated and set to what
  \<^verbatim>\<open>defaultValue\<close> refers to now, \<^verbatim>\<open>load\<close> runs on it in watch mode, and the caller's record
  is overwritten when \<^verbatim>\<open>err == nil && changed\<close>. An error is printed and goes nowhere else.

  \<^verbatim>\<open>reflectPtr.Elem().Set(defaultValue)\<close> copies the struct and nothing below it: what the
  caller's record reaches through a non-nil pointer or holds in a non-empty slice is
  shared with the new record. A cycle that publishes overwrites the caller's record with
  the new one, and a cycle that finds nothing changed returns before anything is
  written, so there the sharing does not show. A cycle whose \<^verbatim>\<open>load\<close> returns an error
  leaves the caller's struct alone, but what the decoders and the binder wrote in place
  behind shared pointers and into shared slice elements is written for the caller as
  well. The values of this model own what they point to and cannot tell which writes
  those are, so the result of such a cycle is given only for a record that shares
  nothing (\<open>shareFree\<close>); for any other record it is \<open>CycleNotModelled\<close>.
\<close>

fun shareFree :: "val \<Rightarrow> bool" where
  "shareFree (VPtr v) = False"
| "shareFree (VSlice t xs) = (xs = [])"
| "shareFree (VStruct fvs) = list_all (\<lambda>fv. shareFree (snd fv)) fvs"
| "shareFree v = True"

datatype cycleResult = Cycled Process | CyclePanic | CycleUnfinished | CycleNotModelled

definition reloadCycle :: "nat \<Rightarrow> World \<Rightarrow> Process \<Rightarrow> Watcher \<Rightarrow> cycleResult" where
  "reloadCycle fuel w p g =
     (case heap p (w_defaultValue g) of
        None \<Rightarrow> CyclePanic
      | Some seed \<Rightarrow>
          (let reflectPtr = nextAddr p;
               p1 = p\<lparr>heap := (heap p)(reflectPtr \<mapsto> seed), nextAddr := Suc (nextAddr p)\<rparr>
           in
           (case load fuel w (service p1) seed True (w_files g) of
              None \<Rightarrow> CycleUnfinished
            | Some Panic \<Rightarrow> CyclePanic
            | Some (Ok (changed, record', cs')) \<Rightarrow>
                (if changed then
                   Cycled (p1\<lparr>heap := (heap p1)(reflectPtr \<mapsto> record', w_config g \<mapsto> record'),
                              service := cs',
                              callbackCalls :=
                                (if AutoReloadCallback cs' then callbackCalls p1 @ [record']
                                 else callbackCalls p1)\<rparr>)
                 else
                   Cycled (p1\<lparr>heap := (heap p1)(reflectPtr \<mapsto> record'), service := cs'\<rparr>))
            | Some (Err err (changed, record', cs')) \<Rightarrow>
                (if shareFree seed then
                   Cycled (p1\<lparr>heap := (heap p1)(reflectPtr \<mapsto> record'), service := cs',
                              reloadErrors := reloadErrors p1 @ [err]\<rparr>)
                 else CycleNotModelled))))"

section \<open>The resolver in the words of its description\<close>

text \<open>
  What the description of the source resolver says of one candidate path: the literal
  path if it is a regular file, then the variant with the environment name if that is a
  regular file, and only when neither is there the variant with \<^verbatim>\<open>example\<close> in the place
  of the environment name; the line printed for a candidate that has neither; and the
  modification times of the paths taken.
\<close>

definition regularFile :: "World \<Rightarrow> string \<Rightarrow> bool" where
  "regularFile w path = (case Stat w path of None \<Rightarrow> False | Some fileInfo \<Rightarrow> IsRegular fileInfo)"

definition candidateSources :: "World \<Rightarrow> string \<Rightarrow> string \<Rightarrow> string list" where
  "candidateSources w env file =
     (let literal = (if regularFile w file then [file] else []);
          suffixed = (if regularFile w (envFileName file env) then [envFileName file env] else [])
      in if literal @ suffixed \<noteq> [] then literal @ suffixed
         else if regularFile w (envFileName file ''example'') then [envFileName file ''example'']
         else [])"

definition candidateDiagnostics :: "World \<Rightarrow> bool \<Rightarrow> bool \<Rightarrow> string \<Rightarrow> string \<Rightarrow> string list" where
  "candidateDiagnostics w silent watchMode env file =
     (if regularFile w file \<or> regularFile w (envFileName file env) then []
      else if regularFile w (envFileName file ''example'') then
        (if silent \<or> watchMode then []
         else [''Failed to find configuration '' @ file @ '', using example file ''
                 @ envFileName file ''example'' @ [CHR 0x0A]])
      else
        (if silent then [] else [''Failed to find configuration '' @ file @ [CHR 0x0A]]))"

definition recordTimes :: "World \<Rightarrow> string list \<Rightarrow> (string \<times> nat) list \<Rightarrow> (string \<times> nat) list" where
  "recordTimes w paths results =
     foldl (\<lambda>rs path. case Stat w path of
                          None \<Rightarrow> rs
                        | Some fileInfo \<Rightarrow> AList.update path (ModTime fileInfo) rs)
       results paths"


section \<open>The binder in the words of its description\<close>




section \<open>Sample collaborators and records\<close>

text \<open>
  The decoders are parameters of everything above. The closed instances below need
  concrete ones: \<open>sampleYaml\<close> decodes a bare scalar into a bool, an int or a string, and a
  one-line document \<^verbatim>\<open>key: value\<close> into the field of a struct whose lower-cased name is
  the key; on these documents it answers as \<^verbatim>\<open>yaml.v2\<close> does.
\<close>

fun parseDigits :: "string \<Rightarrow> nat \<Rightarrow> nat option" where
  "parseDigits [] acc = Some acc"
| "parseDigits (c # cs) acc =
     (if 48 \<le> (of_char c :: nat) \<and> (of_char c :: nat) \<le> 57
      then parseDigits cs (10 * acc + ((of_char c :: nat) - 48)) else None)"

definition sampleScalar :: "string \<Rightarrow> val \<Rightarrow> val \<times> error option" where
  "sampleScalar s v =
     (case v of
        VBool b \<Rightarrow>
          (if s = ''true'' then (VBool True, None)
           else if s = ''false'' then (VBool False, None)
           else (v, Some (YamlTypeError [''line 1: cannot unmarshal !!str `'' @ s @ ''` into bool''])))
      | VInt i \<Rightarrow>
          (case (if s = [] then None else parseDigits s 0) of
             Some n \<Rightarrow> (VInt (int n), None)
           | None \<Rightarrow> (v, Some (YamlTypeError [''line 1: cannot unmarshal !!str `'' @ s @ ''` into int''])))
      | VString x \<Rightarrow> (VString s, None)
      | _ \<Rightarrow> (v, Some (ExternalError ''sample decoder: unsupported target'')))"

fun splitColon :: "string \<Rightarrow> string \<Rightarrow> (string \<times> string) option" where
  "splitColon [] seen = None"
| "splitColon (c # cs) seen =
     (if c = CHR '':'' \<and> take 1 cs = '' '' then Some (rev seen, drop 1 cs)
      else splitColon cs (c # seen))"

fun setKey :: "string \<Rightarrow> string \<Rightarrow> (StructField \<times> val) list
    \<Rightarrow> (StructField \<times> val) list \<times> error option" where
  "setKey k x [] = ([], None)"
| "setKey k x (fv # rest) =
     (if asciiToLower (Name (fst fv)) = k then
        (case sampleScalar x (snd fv) of (v', err) \<Rightarrow> ((fst fv, v') # rest, err))
      else (case setKey k x rest of (rest', err) \<Rightarrow> (fv # rest', err)))"

definition sampleYaml :: "string \<Rightarrow> val \<Rightarrow> val \<times> error option" where
  "sampleYaml s v =
     (case v of
        VStruct fvs \<Rightarrow>
          (case splitColon s [] of
             None \<Rightarrow> (v, Some (YamlTypeError [''line 1: cannot unmarshal !!str into struct'']))
           | Some (k, x) \<Rightarrow> (case setKey k x fvs of (fvs', err) \<Rightarrow> (VStruct fvs', err)))
      | _ \<Rightarrow> sampleScalar s v)"

text \<open>
  A world with no variables and no files, whose TOML and JSON decoders reject every input
  (as the real ones reject the YAML documents used here).
\<close>

definition sampleWorld :: World where
  "sampleWorld =
     \<lparr>environ = Map.empty,
      Stat = (\<lambda>path. None),
      ReadFile = (\<lambda>path. Inl (ExternalError ''no such file or directory'')),
      Args0 = ''app'',
      ToUpper = asciiToUpper,
      ToLower = asciiToLower,
      yaml_Unmarshal = sampleYaml,
      yaml_UnmarshalStrict = sampleYaml,
      toml_Decode = (\<lambda>data config. ((config, []), Some (ExternalError ''toml: syntax error''))),
      json_Decode = (\<lambda>strict data config. (config, Some (ExternalError ''invalid character'')))\<rparr>"

definition withEnv :: "(string \<times> string) list \<Rightarrow> World \<Rightarrow> World" where
  "withEnv vars w = w\<lparr>environ := map_of vars\<rparr>"

definition withFiles :: "(string \<times> nat \<times> string) list \<Rightarrow> World \<Rightarrow> World" where
  "withFiles fs w =
     w\<lparr>Stat := (\<lambda>path. case map_of fs path of
                         None \<Rightarrow> None
                       | Some (t, data) \<Rightarrow> Some \<lparr>IsRegular = True, ModTime = t\<rparr>),
        ReadFile := (\<lambda>path. case map_of fs path of
                         None \<Rightarrow> Inl (ExternalError ''no such file or directory'')
                       | Some (t, data) \<Rightarrow> Inr data)\<rparr>"

definition exported :: "string \<Rightarrow> (string \<times> string) list \<Rightarrow> StructField" where
  "exported name tags = \<lparr>Name = name, PkgPath = [], Anonymous = False, Tag = tags\<rparr>"

definition sampleService :: ConfigService where
  "sampleService =
     \<lparr>Environment = [], ENVPrefix = ''PREFIX'', Debug = False, Verbose = False,
      Silent = False, AutoReload = True, AutoReloadInterval = 1, AutoReloadCallback = True,
      ErrorOnUnmatchedKeys = False, configModTimes = []\<rparr>"

text \<open>An unexported field that carries every tag the binder reads.\<close>

definition secretField :: StructField where
  "secretField = \<lparr>Name = ''secret'', PkgPath = ''main'', Anonymous = False,
                   Tag = [(''required'', ''true''), (''default'', ''x''), (''env'', ''SECRET'')]\<rparr>"

text \<open>A record with a defaulted bool and a required string that is set.\<close>

definition debugCfg :: val where
  "debugCfg = VStruct [(exported ''Debug'' [(''default'', ''true'')], VBool False),
                       (exported ''Name'' [(''required'', ''true'')], VString ''svc'')]"

text \<open>
  Records for the required check: a set field before a required blank one, two required
  blank fields, and a required field whose default is the zero value.
\<close>

definition portName :: "(StructField \<times> val) list" where
  "portName = [(exported ''Port'' [], VInt 80),
               (exported ''Name'' [(''required'', ''true'')], VString [])]"





text \<open>
  A slice of items, as a field named \<^verbatim>\<open>Items\<close> and as an embedded field of a named slice
  type tagged \<^verbatim>\<open>anonymous:"true"\<close>.
\<close>

definition Item :: ty where
  "Item = TStruct [(exported ''Name'' [], TString)]"

definition item :: "string \<Rightarrow> val" where
  "item name = VStruct [(exported ''Name'' [], VString name)]"

definition itemsField :: StructField where
  "itemsField = exported ''Items'' []"

definition embeddedItems :: StructField where
  "embeddedItems = \<lparr>Name = ''Items'', PkgPath = [], Anonymous = True,
                      Tag = [(''anonymous'', ''true'')]\<rparr>"

text \<open>A directory with a base file, its development variant and an example for another.\<close>

definition sampleFiles :: "(string \<times> nat \<times> string) list" where
  "sampleFiles = [(''config.yml'', 3, ''port: 80''),
                  (''config.development.yml'', 4, ''name: dev''),
                  (''db.example'', 1, ''name: db'')]"

text \<open>
  A service that has recorded the times of the sample files, and a world whose file
  contents cannot be read and whose decoders fail and overwrite the record.
\<close>

definition watchedService :: ConfigService where
  "watchedService = sampleService\<lparr>configModTimes := [(''config.yml'', 3), (''config.development.yml'', 4)]\<rparr>"

definition brokenDecoders :: "World \<Rightarrow> World" where
  "brokenDecoders w =
     w\<lparr>ReadFile := (\<lambda>path. Inl (ExternalError ''unreadable'')),
        yaml_Unmarshal := (\<lambda>data config. (VBool True, Some (ExternalError ''yaml called''))),
        yaml_UnmarshalStrict := (\<lambda>data config. (VBool True, Some (ExternalError ''yaml called''))),
        toml_Decode := (\<lambda>data config. ((VBool True, []), Some (ExternalError ''toml called''))),
        json_Decode := (\<lambda>strict data config. (VBool True, Some (ExternalError ''json called'')))\<rparr>"

text \<open>
  A record with one int field, and a world whose YAML decoder rejects its input with a
  syntax error (an error that is not a \<^verbatim>\<open>*yaml.TypeError\<close>).
\<close>

definition portOnly :: val where
  "portOnly = VStruct [(exported ''Port'' [], VInt 0)]"

definition yamlSyntaxError :: "World \<Rightarrow> World" where
  "yamlSyntaxError w =
     w\<lparr>yaml_Unmarshal := (\<lambda>data config.
          (config, Some (ExternalError ''yaml: line 1: did not find expected node content'')))\<rparr>"

text \<open>
  A process whose record at address 0 holds the zero values, and two states of the
  directory: \<^verbatim>\<open>config.yml\<close> first sets the port, then is rewritten to set the name only.
\<close>

definition initialRecord :: val where
  "initialRecord = VStruct [(exported ''Port'' [], VInt 0), (exported ''Name'' [], VString [])]"

definition boundRecord :: "int \<Rightarrow> string \<Rightarrow> val" where
  "boundRecord port name = VStruct [(exported ''Port'' [], VInt port), (exported ''Name'' [], VString name)]"

definition process0 :: Process where
  "process0 = \<lparr>heap = [0 \<mapsto> initialRecord], nextAddr = 1, service = sampleService,
                callbackCalls = [], reloadErrors = []\<rparr>"

definition worldA :: World where
  "worldA = withFiles [(''config.yml'', 1, ''port: 80'')] sampleWorld"

definition worldB :: World where
  "worldB = withFiles [(''config.yml'', 2, ''name: x'')] sampleWorld"

text \<open>A required field without a default.\<close>

definition requiredName :: StructField where
  "requiredName = exported ''Name'' [(''required'', ''true'')]"







text \<open>
  A service whose recorded file is \<^verbatim>\<open>a.yml\<close>, and a world whose only file is an older
  \<^verbatim>\<open>b.yml\<close>.
\<close>

definition recordedOther :: ConfigService where
  "recordedOther = sampleService\<lparr>configModTimes := [(''a.yml'', 5)]\<rparr>"

definition worldOther :: World where
  "worldOther = withFiles [(''b.yml'', 3, ''port: 80'')] sampleWorld"

section \<open>Properties\<close>

subsection \<open>Fuel\<close>

text \<open>
  A run that returns with some fuel returns the same with more: the fuel only bounds how
  far a run is followed.
\<close>

lemma mapOutcome_None [simp]: "mapOutcome g r = None \<longleftrightarrow> r = None"
  by (cases "(g, r)" rule: mapOutcome.cases) auto

lemma bind_fuel_Suc:
  "bindTags e n w c p \<noteq> None \<Longrightarrow> bindTags e (Suc n) w c p = bindTags e n w c p"
  "bindFields e n w fvs p \<noteq> None \<Longrightarrow> bindFields e (Suc n) w fvs p = bindFields e n w fvs p"
  "bindField e n w f v p \<noteq> None \<Longrightarrow> bindField e (Suc n) w f v p = bindField e n w f v p"
  "bindElems e n w xs i p \<noteq> None \<Longrightarrow> bindElems e (Suc n) w xs i p = bindElems e n w xs i p"
  "growSlice e n w t p idx cur \<noteq> None \<Longrightarrow> growSlice e (Suc n) w t p idx cur = growSlice e n w t p idx cur"
proof (induction e n w c p and e n w fvs p and e n w f v p and e n w xs i p and e n w t p idx cur
    rule: bindTags_bindFields_bindField_bindElems_growSlice.induct)
  case (1 enforce w config prefixes)
  then show ?case by simp
next
  case (2 enforce n w config prefixes)
  then show ?case
    by (cases "structFields config") simp_all
next
  case (3 enforce n w prefixes)
  then show ?case by simp
next
  case (4 enforce n w fv rest prefixes)
  show ?case
  proof (cases "bindField enforce n w (fst fv) (snd fv) prefixes")
    case None
    with "4.prems" show ?thesis by simp
  next
    case (Some r)
    then have step: "bindField enforce (Suc n) w (fst fv) (snd fv) prefixes = Some r"
      using "4.IH"(1) by simp
    show ?thesis
    proof (cases r)
      case (Ok field')
      with Some "4.prems" have "bindFields enforce n w rest prefixes \<noteq> None" by simp
      with "4.IH"(2) Some Ok step show ?thesis by simp
    qed (use Some step in simp_all)
  qed
next
  case (5 enforce n w fieldStruct field prefixes)
  show ?case
  proof (cases "canAccess fieldStruct")
    case False
    then show ?thesis by (simp add: bindField.simps)
  next
    case True
    show ?thesis
    proof (cases "resolveField enforce w fieldStruct field prefixes")
      case (Ok field2)
      with True 5 show ?thesis
        by (cases "descentOf field2") (simp_all add: bindField.simps)
    qed (use True in \<open>simp_all add: bindField.simps\<close>)
  qed
next
  case (6 enforce n w i prefixes)
  then show ?case by simp
next
  case (7 enforce n w x xs i prefixes)
  show ?case
  proof (cases "IndirectKind x = KStruct")
    case False
    with 7 show ?thesis by simp
  next
    case True
    show ?thesis
    proof (cases "bindTags enforce n w x (prefixes @ [Sprint i])")
      case None
      with True "7.prems" show ?thesis by simp
    next
      case (Some r)
      then have step: "bindTags enforce (Suc n) w x (prefixes @ [Sprint i]) = Some r"
        using "7.IH"(1) True by simp
      show ?thesis
      proof (cases r)
        case (Ok x')
        with Some True "7.prems" have "bindElems enforce n w xs (Suc i) prefixes \<noteq> None"
          by simp
        with "7.IH"(2) True Some Ok step show ?thesis by simp
      qed (use True Some step in simp_all)
    qed
  qed
next
  case (8 enforce w t prefixes idx field)
  then show ?case by simp
next
  case (9 enforce n w t prefixes idx field)
  show ?case
  proof (cases "bindTags enforce n w (Zero t) (prefixes @ [Sprint idx])")
    case None
    with "9.prems" show ?thesis by simp
  next
    case (Some r)
    then have step: "bindTags enforce (Suc n) w (Zero t) (prefixes @ [Sprint idx]) = Some r"
      using "9.IH"(1) by simp
    show ?thesis
    proof (cases r)
      case (Ok newVal)
      show ?thesis
      proof (cases "newVal = Zero t")
        case True
        with Some Ok step show ?thesis by simp
      next
        case False
        with Some Ok "9.prems"
        have "growSlice enforce n w t prefixes (Suc idx) (Append field newVal) \<noteq> None"
          by simp
        with "9.IH"(2) Some Ok False step show ?thesis by simp
      qed
    qed (use Some step in simp_all)
  qed
qed

lemma bindTags_fuel_add:
  "bindTags e n w c p \<noteq> None \<Longrightarrow> bindTags e (n + d) w c p = bindTags e n w c p"
proof (induction d)
  case 0
  then show ?case by simp
next
  case (Suc d)
  then have eq: "bindTags e (n + d) w c p = bindTags e n w c p"
    by blast
  with Suc.prems have "bindTags e (n + d) w c p \<noteq> None"
    by simp
  from bind_fuel_Suc(1) [OF this] eq show ?case
    by (simp only: add_Suc_right)
qed

lemma bindTags_fuel_le:
  "bindTags e n w c p = Some r \<Longrightarrow> n \<le> m \<Longrightarrow> bindTags e m w c p = Some r"
  using bindTags_fuel_add [of e n w c p "m - n"] by simp

subsection \<open>Outcomes and loops\<close>

lemma mapOutcome_eq_Ok:
  "mapOutcome g r = Some (Ok y) \<longleftrightarrow> (\<exists>x. r = Some (Ok x) \<and> y = g x)"
  by (cases "(g, r)" rule: mapOutcome.cases) auto

lemma mapOutcome_mapOutcome:
  "mapOutcome g (mapOutcome h r) = mapOutcome (\<lambda>x. g (h x)) r"
  by (cases "(h, r)" rule: mapOutcome.cases) auto

lemma bindFields_append:
  "bindFields e n w pre p = Some (Ok pre') \<Longrightarrow>
     bindFields e n w (pre @ rest) p = mapOutcome (\<lambda>r. pre' @ r) (bindFields e n w rest p)"
proof (induction pre arbitrary: pre')
  case Nil
  then show ?case
    by (cases "bindFields e n w rest p" rule: mapOutcome.cases [of "(id, _)"]) auto
next
  case (Cons fv pre)
  show ?case
  proof (cases "bindField e n w (fst fv) (snd fv) p")
    case None
    with Cons.prems show ?thesis by simp
  next
    case (Some r)
    show ?thesis
    proof (cases r)
      case (Ok field')
      with Some Cons.prems obtain pre'' where
        a: "bindFields e n w pre p = Some (Ok pre'')" and b: "pre' = (fst fv, field') # pre''"
        by (auto simp: mapOutcome_eq_Ok)
      from Cons.IH [OF a] Some Ok b show ?thesis
        by (simp add: mapOutcome_mapOutcome)
    qed (use Some Cons.prems in simp_all)
  qed
qed

lemma mapOutcome_eq_Err:
  "mapOutcome g r = Some (Err e y) \<longleftrightarrow> (\<exists>x. r = Some (Err e x) \<and> y = g x)"
  by (cases "(g, r)" rule: mapOutcome.cases) auto

lemma loadFromEnv_first_match:
  "\<forall>e\<in>set skipped. Getenv w e = [] \<Longrightarrow> Getenv w env \<noteq> [] \<Longrightarrow>
     loadFromEnv w (skipped @ env # later) field = setFromEnv w (Getenv w env) field"
  by (induction skipped) simp_all











subsection \<open>Fields the binder cannot access\<close>

text \<open>
  Claim C9. A field that is not accessible (an unexported field) is skipped by both
  binders (\<open>enforce\<close> is True for \<^verbatim>\<open>processTags\<close> and False for \<^verbatim>\<open>processInitTags\<close>):
  whatever the environment, the tags of the field, its value and the fuel, the round of
  the field loop returns no error and leaves the field as it is, and the loop goes on
  with the remaining fields. No fuel is used, so nothing is entered; in particular a
  required and blank unexported field does not fail the binder.
\<close>

theorem C9_inaccessible_field_skipped:
  "\<not> canAccess fieldStruct \<Longrightarrow>
     bindField enforce n w fieldStruct field prefixes = Some (Ok field) \<and>
     bindFields enforce n w ((fieldStruct, field) # rest) prefixes =
       mapOutcome (\<lambda>rest'. (fieldStruct, field) # rest') (bindFields enforce n w rest prefixes)"
  by (simp add: bindField.simps)

theorem C9_inaccessible_field_skipped_witness:
  "\<not> canAccess secretField \<and>
   Tag_Get secretField ''required'' = ''true'' \<and>
   isBlank (VString []) \<and>
   bindField True 0 (withEnv [(''SECRET'', ''s'')] sampleWorld) secretField (VString []) [''PREFIX'']
     = Some (Ok (VString [])) \<and>
   processTags (Suc 0) (withEnv [(''SECRET'', ''s'')] sampleWorld)
       (VStruct [(secretField, VString [])]) [''PREFIX'']
     = Some (Ok (VStruct [(secretField, VString [])])) \<and>
   processInitTags (Suc 0) (withEnv [(''SECRET'', ''s'')] sampleWorld)
       (VStruct [(secretField, VString [])]) [''PREFIX'']
     = Some (Ok (VStruct [(secretField, VString [])]))"
proof -
  have h: "\<not> canAccess secretField"
    by (simp add: canAccess_def secretField_def)
  have t: "Tag_Get secretField ''required'' = ''true''"
    by (simp add: Tag_Get_def secretField_def)
  have b: "isBlank (VString [])"
    by (simp add: isBlank_def)
  from C9_inaccessible_field_skipped [OF h] h t b show ?thesis
    by (simp add: processTags_def processInitTags_def)
qed

subsection \<open>The environment is read through its values only\<close>

lemma boolOfEnv_world_cong: "ToLower w = ToLower w' \<Longrightarrow> boolOfEnv w value = boolOfEnv w' value"
  by (simp add: boolOfEnv_def)

lemma envNames_world_cong: "ToUpper w = ToUpper w' \<Longrightarrow> envNames w p f = envNames w' p f"
  by (simp add: envNames_def Let_def)

lemma setFromEnv_world_cong:
  "yaml_Unmarshal w = yaml_Unmarshal w' \<Longrightarrow> ToLower w = ToLower w' \<Longrightarrow>
     setFromEnv w value field = setFromEnv w' value field"
  by (simp add: setFromEnv_def boolOfEnv_world_cong [of w w'] split: Kind.splits val.splits)

lemma applyDefault_world_cong:
  "yaml_Unmarshal w = yaml_Unmarshal w' \<Longrightarrow> applyDefault e w f field = applyDefault e w' f field"
  by (simp add: applyDefault_def)

lemma loadFromEnv_world_cong:
  "(\<And>k. Getenv w k = Getenv w' k) \<Longrightarrow> yaml_Unmarshal w = yaml_Unmarshal w' \<Longrightarrow>
   ToUpper w = ToUpper w' \<Longrightarrow> ToLower w = ToLower w' \<Longrightarrow>
     loadFromEnv w envs field = loadFromEnv w' envs field"
  by (induction envs) (simp_all add: setFromEnv_world_cong [of w w'])

lemma resolveField_world_cong:
  "(\<And>k. Getenv w k = Getenv w' k) \<Longrightarrow> yaml_Unmarshal w = yaml_Unmarshal w' \<Longrightarrow>
   ToUpper w = ToUpper w' \<Longrightarrow> ToLower w = ToLower w' \<Longrightarrow>
     resolveField e w f v p = resolveField e w' f v p"
  by (simp add: resolveField_def envNames_world_cong [of w w'] applyDefault_world_cong [of w w']
        loadFromEnv_world_cong [of w w'] split: outcome.splits)

lemma bind_world_cong:
  "(\<And>k. Getenv w k = Getenv w' k) \<Longrightarrow> yaml_Unmarshal w = yaml_Unmarshal w' \<Longrightarrow>
   ToUpper w = ToUpper w' \<Longrightarrow> ToLower w = ToLower w' \<Longrightarrow>
     bindTags e n w c p = bindTags e n w' c p"
  "(\<And>k. Getenv w k = Getenv w' k) \<Longrightarrow> yaml_Unmarshal w = yaml_Unmarshal w' \<Longrightarrow>
   ToUpper w = ToUpper w' \<Longrightarrow> ToLower w = ToLower w' \<Longrightarrow>
     bindFields e n w fvs p = bindFields e n w' fvs p"
  "(\<And>k. Getenv w k = Getenv w' k) \<Longrightarrow> yaml_Unmarshal w = yaml_Unmarshal w' \<Longrightarrow>
   ToUpper w = ToUpper w' \<Longrightarrow> ToLower w = ToLower w' \<Longrightarrow>
     bindField e n w f v p = bindField e n w' f v p"
  "(\<And>k. Getenv w k = Getenv w' k) \<Longrightarrow> yaml_Unmarshal w = yaml_Unmarshal w' \<Longrightarrow>
   ToUpper w = ToUpper w' \<Longrightarrow> ToLower w = ToLower w' \<Longrightarrow>
     bindElems e n w xs i p = bindElems e n w' xs i p"
  "(\<And>k. Getenv w k = Getenv w' k) \<Longrightarrow> yaml_Unmarshal w = yaml_Unmarshal w' \<Longrightarrow>
   ToUpper w = ToUpper w' \<Longrightarrow> ToLower w = ToLower w' \<Longrightarrow>
     growSlice e n w t p idx cur = growSlice e n w' t p idx cur"
proof (induction e n w c p and e n w fvs p and e n w f v p and e n w xs i p and e n w t p idx cur
    rule: bindTags_bindFields_bindField_bindElems_growSlice.induct)
  case (2 enforce n w config prefixes)
  then show ?case
    by (cases "structFields config") simp_all
next
  case (4 enforce n w fv rest prefixes)
  then have "bindField enforce n w (fst fv) (snd fv) prefixes
      = bindField enforce n w' (fst fv) (snd fv) prefixes"
    by simp
  with 4 show ?case
    by (cases "bindField enforce n w' (fst fv) (snd fv) prefixes")
       (simp_all split: outcome.splits)
next
  case (5 enforce n w fieldStruct field prefixes)
  have r: "resolveField enforce w fieldStruct field prefixes
      = resolveField enforce w' fieldStruct field prefixes"
    using 5 by (intro resolveField_world_cong)
  show ?case
  proof (cases "canAccess fieldStruct")
    case False
    then show ?thesis by (simp add: bindField.simps)
  next
    case True
    show ?thesis
    proof (cases "resolveField enforce w' fieldStruct field prefixes")
      case (Ok field2)
      with True 5 r show ?thesis
        by (cases "descentOf field2") (simp_all add: bindField.simps)
    qed (use True r in \<open>simp_all add: bindField.simps\<close>)
  qed
next
  case (7 enforce n w x xs i prefixes)
  show ?case
  proof (cases "IndirectKind x = KStruct")
    case False
    with 7 show ?thesis by simp
  next
    case True
    with 7 have "bindTags enforce n w x (prefixes @ [Sprint i])
      = bindTags enforce n w' x (prefixes @ [Sprint i])"
      by simp
    with 7 True show ?thesis
      by (cases "bindTags enforce n w' x (prefixes @ [Sprint i])")
         (simp_all split: outcome.splits)
  qed
next
  case (9 enforce n w t prefixes idx field)
  then have "bindTags enforce n w (Zero t) (prefixes @ [Sprint idx])
      = bindTags enforce n w' (Zero t) (prefixes @ [Sprint idx])"
    by simp
  with 9 show ?case
    by (cases "bindTags enforce n w' (Zero t) (prefixes @ [Sprint idx])")
       (simp_all split: outcome.splits)
qed simp_all

lemma Getenv_empty_is_unset:
  "environ w k = Some [] \<Longrightarrow> Getenv (w\<lparr>environ := (environ w)(k := None)\<rparr>) k' = Getenv w k'"
  by (simp add: Getenv_def)

text \<open>
  Claim C10. A variable that is set to the empty string is treated as one that is not
  set: the loop over the candidate names goes on to the next name, a field none of whose
  candidates has a value keeps the value it has, and the whole binder (both variants,
  so the defaults and the required check as well) returns the same on the environment
  with the variable set to the empty string and on the environment without it.
\<close>

theorem C10_empty_value_is_unset:
  "environ w k = Some [] \<Longrightarrow>
     loadFromEnv w (k # envs) field = loadFromEnv w envs field \<and>
     loadFromEnv w [k] field = Ok field \<and>
     bindTags enforce n w config prefixes
       = bindTags enforce n (w\<lparr>environ := (environ w)(k := None)\<rparr>) config prefixes"
proof -
  assume h: "environ w k = Some []"
  then have g: "Getenv w k = []"
    by (simp add: Getenv_def)
  have "bindTags enforce n w config prefixes
       = bindTags enforce n (w\<lparr>environ := (environ w)(k := None)\<rparr>) config prefixes"
    by (rule bind_world_cong(1)) (simp_all add: Getenv_empty_is_unset [OF h])
  with g show ?thesis by simp
qed

theorem C10_empty_value_is_unset_witness:
  "environ (withEnv [(''PREFIX_Debug'', ''''), (''PREFIX_DEBUG'', ''0'')] sampleWorld) ''PREFIX_Debug''
     = Some [] \<and>
   loadFromEnv (withEnv [(''PREFIX_Debug'', ''''), (''PREFIX_DEBUG'', ''0'')] sampleWorld)
       [''PREFIX_Debug'', ''PREFIX_DEBUG''] (VBool True) = Ok (VBool False) \<and>
   processTags 2 (withEnv [(''PREFIX_Debug'', ''''), (''PREFIX_DEBUG'', ''0'')] sampleWorld)
       debugCfg [''PREFIX'']
     = processTags 2
         ((withEnv [(''PREFIX_Debug'', ''''), (''PREFIX_DEBUG'', ''0'')] sampleWorld)
            \<lparr>environ := (environ (withEnv [(''PREFIX_Debug'', ''''), (''PREFIX_DEBUG'', ''0'')]
                                      sampleWorld))(''PREFIX_Debug'' := None)\<rparr>)
         debugCfg [''PREFIX'']"
proof -
  have h: "environ (withEnv [(''PREFIX_Debug'', ''''), (''PREFIX_DEBUG'', ''0'')] sampleWorld)
             ''PREFIX_Debug'' = Some []"
    by (simp add: withEnv_def)
  have v: "loadFromEnv (withEnv [(''PREFIX_Debug'', ''''), (''PREFIX_DEBUG'', ''0'')] sampleWorld)
       [''PREFIX_DEBUG''] (VBool True) = Ok (VBool False)"
    by code_simp
  from C10_empty_value_is_unset [OF h, of "[''PREFIX_DEBUG'']" "VBool True" True 2 debugCfg "[''PREFIX'']"] h v
  show ?thesis
    by (simp add: processTags_def)
qed

subsection \<open>Bool fields from the environment\<close>




subsection \<open>Required fields\<close>





subsection \<open>Environment over files and defaults\<close>




subsection \<open>Slices grown from the environment\<close>

lemma foldl_Append_VSlice: "foldl Append (VSlice t ys) xs = VSlice t (ys @ xs)"
  by (induction xs arbitrary: ys) simp_all

lemma foldl_Append_VNilSlice: "xs \<noteq> [] \<Longrightarrow> foldl Append (VNilSlice t) xs = VSlice t xs"
  by (cases xs) (simp_all add: foldl_Append_VSlice)

lemma growSlice_run:
  assumes "\<forall>i<length xs. bindTags e n0 w (Zero t) (path @ [Sprint (idx + i)]) = Some (Ok (xs ! i))
             \<and> xs ! i \<noteq> Zero t"
    and "bindTags e n0 w (Zero t) (path @ [Sprint (idx + length xs)]) = Some (Ok (Zero t))"
  shows "growSlice e (Suc (n0 + length xs)) w t path idx cur = Some (Ok (foldl Append cur xs))"
  using assms
proof (induction xs arbitrary: idx cur)
  case Nil
  then show ?case by simp
next
  case (Cons x xs)
  from Cons.prems(1) have x: "bindTags e n0 w (Zero t) (path @ [Sprint idx]) = Some (Ok x)"
    and nz: "x \<noteq> Zero t"
    by force+
  from bindTags_fuel_le [OF x, of "n0 + length (x # xs)"]
  have x': "bindTags e (n0 + length (x # xs)) w (Zero t) (path @ [Sprint idx]) = Some (Ok x)"
    by simp
  have rest: "\<forall>i<length xs. bindTags e n0 w (Zero t) (path @ [Sprint (Suc idx + i)])
                = Some (Ok (xs ! i)) \<and> xs ! i \<noteq> Zero t"
  proof (intro allI impI)
    fix i assume "i < length xs"
    then have "Suc i < length (x # xs)" by simp
    with Cons.prems(1) have "bindTags e n0 w (Zero t) (path @ [Sprint (idx + Suc i)])
        = Some (Ok ((x # xs) ! Suc i)) \<and> (x # xs) ! Suc i \<noteq> Zero t"
      by blast
    then show "bindTags e n0 w (Zero t) (path @ [Sprint (Suc idx + i)]) = Some (Ok (xs ! i))
        \<and> xs ! i \<noteq> Zero t"
      by simp
  qed
  from Cons.prems(2)
  have last: "bindTags e n0 w (Zero t) (path @ [Sprint (Suc idx + length xs)]) = Some (Ok (Zero t))"
    by simp
  from Cons.IH [OF rest last, of "Append cur x"]
  have "growSlice e (Suc (n0 + length xs)) w t path (Suc idx) (Append cur x)
          = Some (Ok (foldl Append cur (x # xs)))"
    by simp
  moreover have "growSlice e (Suc (n0 + length (x # xs))) w t path idx cur
          = growSlice e (n0 + length (x # xs)) w t path (Suc idx) (Append cur x)"
    using x' nz by (simp only: growSlice.simps) simp
  ultimately show ?case by simp
qed

text \<open>
  Claim C4, as the code has it. Take a field the binder can access whose value, after
  the environment and the blank check and at the end of its pointers, is a nil or empty
  slice with a struct element type. The path of its elements is \<open>getPrefixForStruct\<close> of
  the field (the path with the name of the field, or the path alone for an embedded
  field tagged \<^verbatim>\<open>anonymous:"true"\<close>) followed by the index. If binding a zero element at
  the indices \<open>0\<close> to \<open>length xs - 1\<close> gives the elements \<open>xs\<close>, none of them the zero
  element, and binding at index \<open>length xs\<close> gives the zero element, then the round
  returns with the field set to the slice \<open>xs\<close> (or left as it was when \<open>xs\<close> is empty).
\<close>

theorem C4_slice_grown_from_env:
  assumes "canAccess f"
    and "resolveField e w f v p = Ok v2"
    and "derefAll v2 = Some cur"
    and "cur = VNilSlice t \<or> cur = VSlice t []"
    and "KindOf (Zero t) = KStruct"
    and "\<forall>i<length xs. bindTags e n0 w (Zero t) (getPrefixForStruct p f @ [Sprint i])
                           = Some (Ok (xs ! i)) \<and> xs ! i \<noteq> Zero t"
    and "bindTags e n0 w (Zero t) (getPrefixForStruct p f @ [Sprint (length xs)])
           = Some (Ok (Zero t))"
  shows "bindField e (Suc (n0 + length xs)) w f v p
           = Some (Ok (setThrough v2 (if xs = [] then cur else VSlice t xs)))"
proof -
  from assms(3-5) have d: "descentOf v2 = Grow t cur"
    by (auto simp: descentOf_def)
  from growSlice_run [of xs e n0 w t "getPrefixForStruct p f" 0 cur] assms(6,7)
  have "growSlice e (Suc (n0 + length xs)) w t (getPrefixForStruct p f) 0 cur
          = Some (Ok (foldl Append cur xs))"
    by simp
  moreover have "foldl Append cur xs = (if xs = [] then cur else VSlice t xs)"
    using assms(4) by (auto simp: foldl_Append_VNilSlice foldl_Append_VSlice)
  ultimately show ?thesis
    using assms(1,2) d by (simp add: bindField.simps)
qed

theorem C4_slice_grown_from_env_witness:
  "bindField True 4
     (withEnv [(''PREFIX_ITEMS_0_NAME'', ''a''), (''PREFIX_ITEMS_1_NAME'', ''b'')] sampleWorld)
     itemsField (VNilSlice Item) [''PREFIX'']
     = Some (Ok (VSlice Item [item ''a'', item ''b'']))"
proof -
  let ?w = "withEnv [(''PREFIX_ITEMS_0_NAME'', ''a''), (''PREFIX_ITEMS_1_NAME'', ''b'')] sampleWorld"
  let ?path = "getPrefixForStruct [''PREFIX''] itemsField"
  let ?xs = "[item ''a'', item ''b'']"
  have a: "canAccess itemsField" by code_simp
  have b: "resolveField True ?w itemsField (VNilSlice Item) [''PREFIX''] = Ok (VNilSlice Item)"
    by code_simp
  have c: "derefAll (VNilSlice Item) = Some (VNilSlice Item)" by simp
  have d: "VNilSlice Item = VNilSlice Item \<or> VNilSlice Item = VSlice Item []" by simp
  have k: "KindOf (Zero Item) = KStruct" by code_simp
  have p0: "bindTags True (Suc 0) ?w (Zero Item) (?path @ [Sprint 0]) = Some (Ok (?xs ! 0))
              \<and> ?xs ! 0 \<noteq> Zero Item"
    by code_simp
  have p1: "bindTags True (Suc 0) ?w (Zero Item) (?path @ [Sprint (Suc 0)]) = Some (Ok (?xs ! Suc 0))
              \<and> ?xs ! Suc 0 \<noteq> Zero Item"
    by code_simp
  have e: "\<forall>i<length ?xs.
             bindTags True (Suc 0) ?w (Zero Item) (?path @ [Sprint i]) = Some (Ok (?xs ! i))
               \<and> ?xs ! i \<noteq> Zero Item"
  proof (intro allI impI)
    fix i assume "i < length ?xs"
    then have "i = 0 \<or> i = Suc 0" by auto
    then show "bindTags True (Suc 0) ?w (Zero Item) (?path @ [Sprint i]) = Some (Ok (?xs ! i))
               \<and> ?xs ! i \<noteq> Zero Item"
      using p0 p1 by blast
  qed
  have l: "bindTags True (Suc 0) ?w (Zero Item) (?path @ [Sprint (length ?xs)])
             = Some (Ok (Zero Item))"
    by code_simp
  have n: "Suc (Suc 0 + length ?xs) = 4" by simp
  from C4_slice_grown_from_env [OF a b c d k e l] show ?thesis
    by (simp only: n setThrough.simps list.simps if_False)
qed

text \<open>
  The claim as stated binds the elements of every such field at the path extended by the
  name of the field and the index. For an embedded slice tagged \<^verbatim>\<open>anonymous:"true"\<close> the
  name is left out: \<^verbatim>\<open>PREFIX_ITEMS_0_NAME\<close> grows nothing and \<^verbatim>\<open>PREFIX_0_NAME\<close> grows one
  element.
\<close>

theorem C4_embedded_slice_path:
  "processTags 4 (withEnv [(''PREFIX_ITEMS_0_NAME'', ''a'')] sampleWorld)
       (VStruct [(embeddedItems, VNilSlice Item)]) [''PREFIX'']
     = Some (Ok (VStruct [(embeddedItems, VNilSlice Item)])) \<and>
   processTags 4 (withEnv [(''PREFIX_0_NAME'', ''a'')] sampleWorld)
       (VStruct [(embeddedItems, VNilSlice Item)]) [''PREFIX'']
     = Some (Ok (VStruct [(embeddedItems, VSlice Item [item ''a''])]))"
  by code_simp

subsection \<open>The source resolver\<close>

lemma recordTimes_append:
  "recordTimes w (ps @ qs) rs = recordTimes w qs (recordTimes w ps rs)"
  by (simp add: recordTimes_def)

lemma resolveCandidate_eq:
  "resolveCandidate w cs watchMode file (keys, results, printed) =
     (keys @ candidateSources w (GetEnvironment w cs) file,
      recordTimes w (candidateSources w (GetEnvironment w cs) file) results,
      printed @ candidateDiagnostics w (Silent cs) watchMode (GetEnvironment w cs) file)"
  by (auto simp: resolveCandidate_def candidateSources_def candidateDiagnostics_def
      recordTimes_def regularFile_def getConfigurationFileWithENVPrefix_def
      split: option.splits)

lemma resolveLoop_eq:
  "resolveLoop w cs watchMode files (keys, results, printed) =
     (keys @ concat (map (candidateSources w (GetEnvironment w cs)) files),
      recordTimes w (concat (map (candidateSources w (GetEnvironment w cs)) files)) results,
      printed @ concat (map (candidateDiagnostics w (Silent cs) watchMode (GetEnvironment w cs)) files))"
  by (induction files arbitrary: keys results printed)
     (simp_all add: resolveCandidate_eq recordTimes_append, simp add: recordTimes_def)

text \<open>
  Claim C5. The resolver takes the candidates from the last to the first and gives, for
  each, the paths of \<open>candidateSources\<close> in that order (the literal path before its
  environment variant, the example variant only when neither is there, nothing when
  that is missing too), records their modification times, and prints for each the lines
  of \<open>candidateDiagnostics\<close>: the line of the example variant unless silent or in watch
  mode. The variant of a path has the name inserted before the extension, or appended
  after a dot when there is none (\<open>envFileName\<close>); the example variant is built the same
  way.
\<close>

theorem C5_sources_per_candidate:
  "getConfigurationFiles w cs watchMode files =
     (concat (map (candidateSources w (GetEnvironment w cs)) (rev files)),
      recordTimes w (concat (map (candidateSources w (GetEnvironment w cs)) (rev files))) [],
      (if \<not> watchMode \<and> (Debug cs \<or> Verbose cs)
       then [''Current environment: '' @ [CHR 0x27] @ GetEnvironment w cs @ [CHR 0x27, CHR 0x0A]]
       else [])
      @ concat (map (candidateDiagnostics w (Silent cs) watchMode (GetEnvironment w cs)) (rev files)))"
  by (simp only: getConfigurationFiles_def resolveLoop_eq append_Nil)

theorem C5_sources_per_candidate_witness:
  "getConfigurationFiles (withFiles sampleFiles sampleWorld) sampleService False
       [''config.yml'', ''db'', ''missing.json'']
     = ([''db.example'', ''config.yml'', ''config.development.yml''],
        [(''db.example'', 1), (''config.yml'', 3), (''config.development.yml'', 4)],
        [''Failed to find configuration missing.json'' @ [CHR 0x0A],
         ''Failed to find configuration db, using example file db.example'' @ [CHR 0x0A]])"
proof -
  let ?w = "withFiles sampleFiles sampleWorld"
  have env: "GetEnvironment ?w sampleService = ''development''"
    by code_simp
  have keys: "concat (map (candidateSources ?w ''development'') (rev [''config.yml'', ''db'', ''missing.json'']))
      = [''db.example'', ''config.yml'', ''config.development.yml'']"
    by code_simp
  have times: "recordTimes ?w [''db.example'', ''config.yml'', ''config.development.yml''] []
      = [(''db.example'', 1), (''config.yml'', 3), (''config.development.yml'', 4)]"
    by code_simp
  have printed: "(if \<not> False \<and> (Debug sampleService \<or> Verbose sampleService)
       then [''Current environment: '' @ [CHR 0x27] @ ''development'' @ [CHR 0x27, CHR 0x0A]]
       else [])
      @ concat (map (candidateDiagnostics ?w (Silent sampleService) False ''development'')
                 (rev [''config.yml'', ''db'', ''missing.json'']))
      = [''Failed to find configuration missing.json'' @ [CHR 0x0A],
         ''Failed to find configuration db, using example file db.example'' @ [CHR 0x0A]]"
    by code_simp
  show ?thesis
    by (simp only: C5_sources_per_candidate env keys times printed)
qed

subsection \<open>Watch mode without a change\<close>

lemma modTimesChanged_iff:
  "modTimesChanged new recorded \<longleftrightarrow>
     (\<exists>(f, t)\<in>set new. \<forall>v. map_of recorded f = Some v \<longrightarrow> v < t)"
  by (auto simp: modTimesChanged_def list_ex_iff split: option.splits)

lemma not_modTimesChanged_iff:
  "\<not> modTimesChanged new recorded \<longleftrightarrow>
     (\<forall>(f, t)\<in>set new. \<exists>v. map_of recorded f = Some v \<and> \<not> v < t)"
  by (fastforce simp: modTimesChanged_iff)

text \<open>
  The resolver gives the same files and times in and out of watch mode; only what it
  prints differs.
\<close>

lemma getConfigurationFiles_watch:
  "fst (getConfigurationFiles w cs True files) = fst (getConfigurationFiles w cs False files)"
  "fst (snd (getConfigurationFiles w cs True files)) = fst (snd (getConfigurationFiles w cs False files))"
  by (simp_all add: getConfigurationFiles_def resolveLoop_eq)

lemma loadWith_watch_changed:
  assumes "getConfigurationFiles w cs True files = (configFiles, configModTimeMap, printed)"
    and "length configModTimeMap \<noteq> length (configModTimes cs)
         \<or> modTimesChanged configModTimeMap (configModTimes cs)"
  shows "loadWith enforce fuel w cs config True files = loadWith enforce fuel w cs config False files"
proof -
  obtain ks ts pr where f: "getConfigurationFiles w cs False files = (ks, ts, pr)"
    by (cases "getConfigurationFiles w cs False files") auto
  with assms(1) getConfigurationFiles_watch [of w cs files]
  have "ks = configFiles" "ts = configModTimeMap"
    by simp_all
  with f assms show ?thesis
    by (auto simp: loadWith_def)
qed

text \<open>
  The times are recorded as soon as every file has been decoded, before the binder runs:
  a load that fails in the binder has recorded them all the same, and a load that fails
  in a decoder has recorded none.
\<close>

lemma loadWith_records_times:
  assumes "getConfigurationFiles w cs False files = (configFiles, configModTimeMap, printed)"
    and "loadWith enforce fuel w cs config False files = Some r"
    and "r = Ok (changed, c, cs') \<or> r = Err e (changed, c, cs')"
  shows "configModTimes cs' =
           (case processFiles w config configFiles (ErrorOnUnmatchedKeys cs) of
              Ok config' \<Rightarrow> configModTimeMap | _ \<Rightarrow> configModTimes cs)"
  using assms
  by (auto simp: loadWith_def mapOutcome_eq_Ok mapOutcome_eq_Err split: outcome.splits if_splits)

text \<open>
  Claim C6, as the code has it. In watch mode \<^verbatim>\<open>load\<close> and \<^verbatim>\<open>init\<close> return no error and
  \<^verbatim>\<open>changed = false\<close>, with the record and the service as they were, exactly when the
  resolver gives as many entries as the service has recorded and every entry has a
  recorded time that it is not newer than. Then no file is decoded and the binder is not
  run: the result is the same for every fuel (with none the binder cannot return) and
  whatever the file contents and the decoders are. In every other case, also when an
  entry has no recorded time, the call decodes and binds as it does outside watch mode.
\<close>

theorem C6_watch_unchanged:
  assumes "getConfigurationFiles w cs True files = (configFiles, configModTimeMap, printed)"
  shows "loadWith enforce fuel w cs config True files =
           (if length configModTimeMap = length (configModTimes cs)
               \<and> (\<forall>(f, t)\<in>set configModTimeMap.
                      \<exists>v. map_of (configModTimes cs) f = Some v \<and> \<not> v < t)
            then Some (Ok (False, config, cs))
            else loadWith enforce fuel w cs config False files)"
proof (cases "length configModTimeMap = length (configModTimes cs)
               \<and> \<not> modTimesChanged configModTimeMap (configModTimes cs)")
  case True
  with assms have "loadWith enforce fuel w cs config True files = Some (Ok (False, config, cs))"
    by (simp add: loadWith_def)
  with True show ?thesis
    by (simp add: not_modTimesChanged_iff)
next
  case False
  then have "loadWith enforce fuel w cs config True files = loadWith enforce fuel w cs config False files"
    using loadWith_watch_changed [OF assms] by blast
  moreover from False
  have "\<not> (length configModTimeMap = length (configModTimes cs)
            \<and> (\<forall>(f, t)\<in>set configModTimeMap.
                   \<exists>v. map_of (configModTimes cs) f = Some v \<and> \<not> v < t))"
    by (simp only: not_modTimesChanged_iff simp_thms)
  ultimately show ?thesis
    by (simp only: if_False)
qed

theorem C6_watch_unchanged_witness:
  "load 0 (brokenDecoders (withFiles sampleFiles sampleWorld)) watchedService (VStruct portName) True
       [''config.yml'']
     = Some (Ok (False, VStruct portName, watchedService)) \<and>
   load 2 worldOther recordedOther portOnly True [''b.yml'']
     = load 2 worldOther recordedOther portOnly False [''b.yml'']"
proof -
  let ?w = "brokenDecoders (withFiles sampleFiles sampleWorld)"
  let ?new = "[(''config.yml'', 3), (''config.development.yml'', 4::nat)]"
  have a: "getConfigurationFiles ?w watchedService True [''config.yml'']
             = ([''config.yml'', ''config.development.yml''], ?new, [])"
    by code_simp
  have b: "length ?new = length (configModTimes watchedService)"
    by code_simp
  have c: "\<forall>(f, t)\<in>set ?new. \<exists>v. map_of (configModTimes watchedService) f = Some v \<and> \<not> v < t"
    by (simp add: watchedService_def)
  have d: "getConfigurationFiles worldOther recordedOther True [''b.yml'']
             = ([''b.yml''], [(''b.yml'', 3)], [])"
    by code_simp
  have e: "map_of (configModTimes recordedOther) ''b.yml'' = None"
    by (simp add: recordedOther_def)
  from b c have "length ?new = length (configModTimes watchedService)
      \<and> (\<forall>(f, t)\<in>set ?new. \<exists>v. map_of (configModTimes watchedService) f = Some v \<and> \<not> v < t)"
    by (rule conjI)
  with C6_watch_unchanged [OF a, of True 0 "VStruct portName"]
  have "load 0 ?w watchedService (VStruct portName) True [''config.yml'']
          = Some (Ok (False, VStruct portName, watchedService))"
    by (simp add: load_def)
  moreover from C6_watch_unchanged [OF d, of True 2 portOnly] e
  have "load 2 worldOther recordedOther portOnly True [''b.yml'']
          = load 2 worldOther recordedOther portOnly False [''b.yml'']"
    by (simp add: load_def)
  ultimately show ?thesis
    by simp
qed

text \<open>
  Claim C6 as it was stated does not hold. The service has recorded \<^verbatim>\<open>a.yml\<close> at time 5
  and the resolver now gives \<^verbatim>\<open>b.yml\<close> of time 3: the number of entries is the same and
  no entry is newer than its recorded time, for \<^verbatim>\<open>b.yml\<close> has none, yet the call in watch
  mode decodes the file, runs the binder and returns \<^verbatim>\<open>changed = true\<close>. Nor is the
  recorded set that of the last successful load: a load that fails for a required field
  has recorded the times of its files, and the next call in watch mode compares with them
  and returns unchanged.
\<close>

theorem C6_unrecorded_entry_reloads:
  "getConfigurationFiles worldOther recordedOther True [''b.yml''] = ([''b.yml''], [(''b.yml'', 3)], []) \<and>
   length [(''b.yml'', 3::nat)] = length (configModTimes recordedOther) \<and>
   \<not> list_ex (\<lambda>(f, t). case map_of (configModTimes recordedOther) f of
                           None \<Rightarrow> False | Some v \<Rightarrow> v < t) [(''b.yml'', 3)] \<and>
   load 2 worldOther recordedOther portOnly True [''b.yml'']
     = Some (Ok (True, VStruct [(exported ''Port'' [], VInt 80)],
                 recordedOther\<lparr>configModTimes := [(''b.yml'', 3)]\<rparr>)) \<and>
   (case load 2 worldA sampleService
           (VStruct [(exported ''Port'' [], VInt 0), (requiredName, VString [])]) False [''config.yml''] of
      Some (Err err (changed, c, cs1)) \<Rightarrow>
        configModTimes cs1 = [(''config.yml'', 1)] \<and>
        load 0 worldA cs1 c True [''config.yml''] = Some (Ok (False, c, cs1))
    | _ \<Rightarrow> False)"
  by code_simp

subsection \<open>Files without a known extension\<close>

text \<open>
  Claim C8, as the code has it. For a file that can be read and whose name ends in none
  of \<^verbatim>\<open>.yaml\<close>, \<^verbatim>\<open>.yml\<close>, \<^verbatim>\<open>.toml\<close>, \<^verbatim>\<open>.json\<close>, name the results of the three decoders, each
  run on the record the one before left. TOML is tried first, then JSON, then YAML; the
  first that returns no error ends the call without error. An \<open>UnmatchedTomlKeysError\<close>
  of TOML and a JSON error whose message contains \<^verbatim>\<open>json: unknown field\<close> are returned at
  once. A YAML error is returned as it is when it is a \<^verbatim>\<open>*yaml.TypeError\<close>, whatever made
  the decoder build it; every other YAML error gives \<^verbatim>\<open>failed to decode config\<close>.
\<close>

theorem C8_probe_order:
  assumes "ReadFile w file = Inr data"
    and "\<not> HasSuffix file ''.yaml''" and "\<not> HasSuffix file ''.yml''"
    and "\<not> HasSuffix file ''.toml''" and "\<not> HasSuffix file ''.json''"
    and "unmarshalToml w data config strict = (c1, tomlErr)"
    and "unmarshalJSON w data c1 strict = (c2, jsonErr)"
    and "unmarshalYaml w data c2 strict = (c3, yamlErr)"
  shows "processFile w config file strict =
          (if tomlErr = None then Ok c1
           else if (\<exists>keys. tomlErr = Some (UnmatchedTomlKeysError keys)) then Err (the tomlErr) c1
           else if jsonErr = None then Ok c2
           else if Contains (ErrorMsg (the jsonErr)) ''json: unknown field'' then Err (the jsonErr) c2
           else if yamlErr = None then Ok c3
           else if (\<exists>es. yamlErr = Some (YamlTypeError es)) then Err (the yamlErr) c3
           else Err (ErrorString ''failed to decode config'') c3)"
proof -
  have "processFile w config file strict = probeFormats w data config strict"
    using assms(1-5) by (simp add: processFile_def)
  also have "\<dots> = (if tomlErr = None then Ok c1
           else if (\<exists>keys. tomlErr = Some (UnmatchedTomlKeysError keys)) then Err (the tomlErr) c1
           else if jsonErr = None then Ok c2
           else if Contains (ErrorMsg (the jsonErr)) ''json: unknown field'' then Err (the jsonErr) c2
           else if yamlErr = None then Ok c3
           else if (\<exists>es. yamlErr = Some (YamlTypeError es)) then Err (the yamlErr) c3
           else Err (ErrorString ''failed to decode config'') c3)"
    using assms(6-8)
    by (auto simp: probeFormats_def split: option.splits error.splits)
  finally show ?thesis .
qed

theorem C8_probe_order_witness:
  "processFile (yamlSyntaxError (withFiles [(''config'', 1, ''{'')] sampleWorld)) portOnly ''config'' False
     = Err (ErrorString ''failed to decode config'') portOnly"
proof -
  let ?w = "yamlSyntaxError (withFiles [(''config'', 1, ''{'')] sampleWorld)"
  have a: "ReadFile ?w ''config'' = Inr ''{''" by code_simp
  have b: "\<not> HasSuffix ''config'' ''.yaml''" "\<not> HasSuffix ''config'' ''.yml''"
    "\<not> HasSuffix ''config'' ''.toml''" "\<not> HasSuffix ''config'' ''.json''"
    by code_simp+
  have t: "unmarshalToml ?w ''{'' portOnly False = (portOnly, Some (ExternalError ''toml: syntax error''))"
    by code_simp
  have j: "unmarshalJSON ?w ''{'' portOnly False = (portOnly, Some (ExternalError ''invalid character''))"
    by code_simp
  have y: "unmarshalYaml ?w ''{'' portOnly False
             = (portOnly, Some (ExternalError ''yaml: line 1: did not find expected node content''))"
    by code_simp
  have c: "\<not> Contains ''invalid character'' ''json: unknown field''"
    by code_simp
  from C8_probe_order [OF a b t j y] c show ?thesis
    by simp
qed

text \<open>
  The claim as stated gives the generic error whenever every probe fails for a reason
  other than unmatched keys. With unmatched keys allowed, a document that is neither TOML
  nor JSON and whose value has the wrong type for its field fails all three probes, and
  the call returns the type error of YAML.
\<close>

theorem C8_yaml_type_error_returned:
  "ReadFile (withFiles [(''config'', 1, ''port: abc'')] sampleWorld) ''config'' = Inr ''port: abc'' \<and>
   unmarshalToml (withFiles [(''config'', 1, ''port: abc'')] sampleWorld) ''port: abc'' portOnly False
     = (portOnly, Some (ExternalError ''toml: syntax error'')) \<and>
   unmarshalJSON (withFiles [(''config'', 1, ''port: abc'')] sampleWorld) ''port: abc'' portOnly False
     = (portOnly, Some (ExternalError ''invalid character'')) \<and>
   processFile (withFiles [(''config'', 1, ''port: abc'')] sampleWorld) portOnly ''config'' False
     = Err (YamlTypeError [''line 1: cannot unmarshal !!str `abc` into int'']) portOnly"
  by code_simp

subsection \<open>The reload cycle\<close>

text \<open>
  The goroutine that \<^verbatim>\<open>Load\<close> starts reads \<^verbatim>\<open>defaultValue\<close> at the address of the caller's
  record; a cycle returns exactly when its \<^verbatim>\<open>load\<close> on the record found there returns; and
  a cycle the model gives a result for changes the caller's record only when that \<^verbatim>\<open>load\<close>
  returned no error and \<^verbatim>\<open>changed\<close>, in which case the caller's record is the record
  \<^verbatim>\<open>load\<close> left.
\<close>

lemma Load_watcher_shares_record:
  "Load fuel w p config files = Some (Ok (p', Some g)) \<Longrightarrow>
     w_config g = config \<and> w_defaultValue g = config \<and> w_files g = files"
  by (auto simp: Load_def mapOutcome_eq_Ok split: option.splits if_splits)

lemma reloadCycle_seed:
  "heap p (w_defaultValue g) = Some seed \<Longrightarrow>
     reloadCycle fuel w p g = CycleUnfinished \<longleftrightarrow> load fuel w (service p) seed True (w_files g) = None"
  by (auto simp: reloadCycle_def Let_def split: option.splits outcome.splits)

lemma reloadCycle_publishes_only_on_change:
  assumes "reloadCycle fuel w p g = Cycled p'"
    and "w_config g \<noteq> nextAddr p"
    and "heap p' (w_config g) \<noteq> heap p (w_config g)"
  shows "\<exists>seed r cs'. heap p (w_defaultValue g) = Some seed \<and>
           load fuel w (service p) seed True (w_files g) = Some (Ok (True, r, cs')) \<and>
           heap p' (w_config g) = Some r"
  using assms
  by (auto simp: reloadCycle_def Let_def split: option.splits outcome.splits if_splits)

text \<open>
  Claim C3 has every cycle start from the values the record held before the first load.
  The code starts from the record as it is at the cycle. Here \<^verbatim>\<open>Load\<close> binds port 80 from
  the file; the file is then rewritten to set only the name. \<^verbatim>\<open>load\<close> on the record as
  it was before the first load would give port 0 and name \<^verbatim>\<open>x\<close>; the cycle publishes
  port 80 and name \<^verbatim>\<open>x\<close> and calls the callback with it.
\<close>

theorem C3_reload_seeded_with_current_record:
  "(case Load 3 worldA process0 0 [''config.yml''] of
      Some (Ok (p1, Some g)) \<Rightarrow>
        heap p1 0 = Some (boundRecord 80 []) \<and>
        w_config g = 0 \<and> w_defaultValue g = 0 \<and>
        mapOutcome (\<lambda>(changed, r, cs). (changed, r))
            (load 3 worldB (service p1) initialRecord True [''config.yml''])
          = Some (Ok (True, boundRecord 0 ''x'')) \<and>
        (case reloadCycle 3 worldB p1 g of
           Cycled p2 \<Rightarrow>
             heap p2 0 = Some (boundRecord 80 ''x'') \<and>
             callbackCalls p2 = [boundRecord 80 ''x'']
         | _ \<Rightarrow> False)
    | _ \<Rightarrow> False)"
  by code_simp

end
